theory Spec2Isabelle
  imports Main "HOL-Library.Sublist"
begin

section \<open>Multi-source job search: \<^verbatim>\<open>lib/search.ts\<close>, \<^verbatim>\<open>lib/format.ts\<close> and the cache\<close>

text \<open>
  Conventions of the model.
  \<^item> A JavaScript string is a \<^typ>\<open>string\<close>; a character stands for the code point of the
    same number (U+0000 to U+00FF), the range on which the string functions used here
    (\<^verbatim>\<open>toLowerCase\<close>, \<^verbatim>\<open>\s\<close>, the line terminators of \<^verbatim>\<open>.\<close>) are modelled.
  \<^item> A value that may be \<^verbatim>\<open>null\<close> or \<^verbatim>\<open>undefined\<close> is an \<^typ>\<open>'a option\<close>.
  \<^item> A number (a salary amount, a result cap, an epoch in milliseconds) is an integer
    (\<^typ>\<open>int\<close>); \<^verbatim>\<open>toLocaleString()\<close> is the one of the \<^verbatim>\<open>en-US\<close> locale, which
    groups the digits in threes with commas.
  \<^item> The payloads of the two REST boards are untyped JSON in the source. A field the code
    reads behind a guard (\<^verbatim>\<open>?.\<close>, \<^verbatim>\<open>||\<close>, \<^verbatim>\<open>?:\<close>) is optional in the model; a field
    it reads without one is present, as \<^verbatim>\<open>references/greenhouse-api.md\<close>,
    the Lever Postings API reference and \<^verbatim>\<open>references/ts-jobspy-api.md\<close> document it. A body
    of any other shape that makes the code throw inside its \<^verbatim>\<open>try\<close> is the response
    \<open>Malformed\<close>. In particular every record carries its URL (\<^verbatim>\<open>jobUrl\<close>,
    \<^verbatim>\<open>absolute_url\<close>, \<^verbatim>\<open>applyUrl\<close>), as \<^verbatim>\<open>jobUrl: string\<close> of \<^verbatim>\<open>JobResult\<close> declares.
  \<^item> A rejected promise carries an \<^verbatim>\<open>Error\<close> object, whose \<^verbatim>\<open>message\<close> can be read.
  \<^item> The last two conventions are those of the types. The functions named \<open>_any\<close> are the
    same functions without them: a record may lack its URL and a promise may be rejected
    with \<^verbatim>\<open>null\<close> or \<^verbatim>\<open>undefined\<close>, and \<^verbatim>\<open>search\<close> may then throw.
  \<^item> The answers of the scraper and of HTTP are functions of the request; the order in
    which the concurrent adapters issue their calls is not modelled, and the calls of a
    search are listed adapter by adapter.
  \<^item> \<^verbatim>\<open>console.error\<close> output is not modelled.
\<close>

subsection \<open>JavaScript truthiness and defaults\<close>

definition truthy_str :: "string option \<Rightarrow> bool" where
  \<comment> \<open>a string operand of \<^verbatim>\<open>!\<close>, \<^verbatim>\<open>||\<close>, \<^verbatim>\<open>?:\<close>: null, undefined and the empty string are falsy\<close>
  "truthy_str s = (case s of None \<Rightarrow> False | Some t \<Rightarrow> t \<noteq> [])"

definition truthy_num :: "int option \<Rightarrow> bool" where
  \<comment> \<open>a number operand: null, undefined and 0 are falsy\<close>
  "truthy_num n = (case n of None \<Rightarrow> False | Some k \<Rightarrow> k \<noteq> 0)"

definition or_str :: "string option \<Rightarrow> string \<Rightarrow> string" where
  \<comment> \<open>\<^verbatim>\<open>s || d\<close> with a string default\<close>
  "or_str s d = (case s of None \<Rightarrow> d | Some t \<Rightarrow> if t = [] then d else t)"

definition or_null :: "string option \<Rightarrow> string option" where
  \<comment> \<open>\<^verbatim>\<open>s || null\<close>\<close>
  "or_null s = (if truthy_str s then s else None)"

subsection \<open>Number formatting: \<^verbatim>\<open>Number.prototype.toLocaleString\<close>\<close>

definition digit_char :: "nat \<Rightarrow> char" where
  "digit_char d = ''0123456789'' ! d"

fun dec_digits :: "nat \<Rightarrow> string" where
  "dec_digits n = (if n < 10 then [digit_char n] else dec_digits (n div 10) @ [digit_char (n mod 10)])"

declare dec_digits.simps [simp del]

fun group3_rev :: "string \<Rightarrow> string" where
  \<comment> \<open>on the reversed digits: a comma after every third digit that has a digit after it\<close>
  "group3_rev (a # b # c # d # ds) = a # b # c # CHR '','' # group3_rev (d # ds)"
| "group3_rev ds = ds"

definition toLocaleString :: "int \<Rightarrow> string" where
  "toLocaleString n =
     (if n < 0 then ''-'' else '''') @ rev (group3_rev (rev (dec_digits (nat \<bar>n\<bar>))))"

subsection \<open>\<^verbatim>\<open>formatSalary\<close> (lib/format.ts)\<close>

definition formatSalary ::
  "int option \<Rightarrow> int option \<Rightarrow> string option \<Rightarrow> string option \<Rightarrow> string option" where
  "formatSalary min_a max_a interval currency =
     (if \<not> truthy_num min_a \<and> \<not> truthy_num max_a then None
      else
        let curr = or_str currency ''USD'';
            per = (if truthy_str interval then ''/'' @ the interval else '''')
        in if truthy_num min_a \<and> truthy_num max_a then
             Some (curr @ '' '' @ toLocaleString (the min_a) @ ''-'' @ toLocaleString (the max_a) @ per)
           else if truthy_num min_a then
             Some (curr @ '' '' @ toLocaleString (the min_a) @ ''+'' @ per)
           else if truthy_num max_a then
             Some (''up to '' @ curr @ '' '' @ toLocaleString (the max_a) @ per)
           else None)"

subsection \<open>String functions of the JavaScript library\<close>

definition toLowerCase_char :: "char \<Rightarrow> char" where
  \<comment> \<open>A to Z, and the capital letters U+00C0 to U+00DE but the multiplication sign U+00D7\<close>
  "toLowerCase_char c =
     (let n = (of_char c :: nat)
      in if (65 \<le> n \<and> n \<le> 90) \<or> (192 \<le> n \<and> n \<le> 222 \<and> n \<noteq> 215)
         then char_of (n + 32) else c)"

definition toLowerCase :: "string \<Rightarrow> string" where
  "toLowerCase s = map toLowerCase_char s"

definition is_space :: "char \<Rightarrow> bool" where
  \<comment> \<open>the class \<^verbatim>\<open>\s\<close>: tab, line feed, vertical tab, form feed, carriage return, space, no-break space\<close>
  "is_space c = (let n = (of_char c :: nat) in (9 \<le> n \<and> n \<le> 13) \<or> n = 32 \<or> n = 160)"

definition is_line_terminator :: "char \<Rightarrow> bool" where
  \<comment> \<open>what \<^verbatim>\<open>.\<close> does not match: line feed and carriage return\<close>
  "is_line_terminator c = (let n = (of_char c :: nat) in n = 10 \<or> n = 13)"

fun split_ws :: "string \<Rightarrow> string list" where
  \<comment> \<open>\<^verbatim>\<open>s.split(/\s+/)\<close>: the pieces between the maximal runs of white space; a run at
      either end leaves an empty piece there, and the empty string gives one empty piece\<close>
  "split_ws [] = [[]]"
| "split_ws (c # cs) =
     (if is_space c then
        (case cs of
           [] \<Rightarrow> [[], []]
         | d # ds \<Rightarrow> if is_space d then split_ws cs else [] # split_ws cs)
      else
        (case split_ws cs of
           [] \<Rightarrow> [[c]]
         | t # ts \<Rightarrow> (c # t) # ts))"

primrec str_includes :: "string \<Rightarrow> string \<Rightarrow> bool" where
  \<comment> \<open>\<^verbatim>\<open>text.includes(w)\<close>: \<open>w\<close> occurs in \<open>text\<close> as a contiguous piece\<close>
  "str_includes [] w = (w = [])"
| "str_includes (c # cs) w = (prefix w (c # cs) \<or> str_includes cs w)"

definition test_remote :: "string \<Rightarrow> bool" where
  \<comment> \<open>\<^verbatim>\<open>/remote/i.test(s)\<close>\<close>
  "test_remote s = str_includes (toLowerCase s) ''remote''"

fun strip_query :: "string \<Rightarrow> string" where
  \<comment> \<open>\<^verbatim>\<open>s.replace(/\?.*$/, "")\<close>: cut at the first question mark that no line terminator follows\<close>
  "strip_query [] = []"
| "strip_query (c # cs) =
     (if c = CHR ''?'' \<and> list_all (\<lambda>d. \<not> is_line_terminator d) cs then []
      else c # strip_query cs)"

definition strip_trailing_slashes :: "string \<Rightarrow> string" where
  \<comment> \<open>\<^verbatim>\<open>s.replace(/\/+$/, "")\<close>\<close>
  "strip_trailing_slashes s = rev (dropWhile (\<lambda>c. c = CHR ''/'') (rev s))"

subsection \<open>\<^verbatim>\<open>Date.prototype.toISOString\<close>\<close>

definition pad_left :: "nat \<Rightarrow> string \<Rightarrow> string" where
  "pad_left w s = replicate (w - length s) (CHR ''0'') @ s"

definition civil_from_days :: "int \<Rightarrow> int \<times> int \<times> int" where
  \<comment> \<open>year, month and day of the proleptic Gregorian calendar, from the day number since 1970-01-01\<close>
  "civil_from_days z0 =
     (let z = z0 + 719468;
          era = z div 146097;
          doe = z mod 146097;
          yoe = (doe - doe div 1460 + doe div 36524 - doe div 146096) div 365;
          doy = doe - (365 * yoe + yoe div 4 - yoe div 100);
          mp = (5 * doy + 2) div 153;
          d = doy - (153 * mp + 2) div 5 + 1;
          m = (if mp < 10 then mp + 3 else mp - 9);
          y = yoe + era * 400 + (if m \<le> 2 then 1 else 0)
      in (y, m, d))"

definition toISOString :: "int \<Rightarrow> string option" where
  \<comment> \<open>\<^verbatim>\<open>new Date(t).toISOString()\<close>; \<open>None\<close> is the RangeError of an invalid date
      (a time value beyond 8.64e15 milliseconds either way)\<close>
  "toISOString t =
     (if \<bar>t\<bar> > 8640000000000000 then None
      else
        let ms = t mod 86400000;
            (y, m, d) = civil_from_days (t div 86400000);
            year = (if 0 \<le> y \<and> y \<le> 9999 then pad_left 4 (dec_digits (nat y))
                    else (if y < 0 then ''-'' else ''+'') @ pad_left 6 (dec_digits (nat \<bar>y\<bar>)))
        in Some (year @ ''-'' @ pad_left 2 (dec_digits (nat m)) @ ''-'' @ pad_left 2 (dec_digits (nat d))
                 @ ''T'' @ pad_left 2 (dec_digits (nat (ms div 3600000)))
                 @ '':'' @ pad_left 2 (dec_digits (nat (ms div 60000 mod 60)))
                 @ '':'' @ pad_left 2 (dec_digits (nat (ms div 1000 mod 60)))
                 @ ''.'' @ pad_left 3 (dec_digits (nat (ms mod 1000))) @ ''Z''))"

subsection \<open>The data model\<close>

text \<open>The common result format, \<^verbatim>\<open>interface JobResult\<close> of lib/format.ts.\<close>

record JobResult =
  title :: string
  company :: string
  location :: string
  isRemote :: bool
  jobUrl :: string
  source :: string
  datePosted :: "string option"
  salary :: "string option"
  description :: string

text \<open>
  \<^verbatim>\<open>interface SearchOptions\<close> of lib/search.ts. The callers in job-hunt.ts also pass a
  \<^verbatim>\<open>proxy\<close> property, which no adapter reads but \<^verbatim>\<open>JSON.stringify(opts)\<close> serialises.
\<close>

record SearchOptions =
  opt_site :: "string option"
  opt_location :: "string option"
  opt_remote :: "bool option"
  opt_results :: "int option"
  opt_jobType :: "string option"
  opt_hoursOld :: "int option"
  opt_greenhouseBoards :: "string list option"
  opt_leverSites :: "string list option"
  opt_proxy :: "string option"

text \<open>The fields of ts-jobspy's \<^verbatim>\<open>JobData\<close> that \<^verbatim>\<open>searchJobSpy\<close> reads.\<close>

record JobData =
  r_title :: string
  r_company :: "string option"
  r_location :: "string option"
  r_isRemote :: "bool option"
  r_jobUrl :: string
  r_site :: string
  r_datePosted :: "string option"
  r_minAmount :: "int option"
  r_maxAmount :: "int option"
  r_interval :: "string option"
  r_currency :: "string option"
  r_description :: "string option"

text \<open>
  A job of the Greenhouse board API; \<open>j_location_name\<close> is \<^verbatim>\<open>j.location?.name\<close>.
\<close>

record GreenhouseJob =
  j_title :: string
  j_location_name :: "string option"
  j_absolute_url :: string
  j_updated_at :: "string option"
  j_content :: "string option"

text \<open>
  A posting of the Lever postings API; \<open>p_location\<close> and \<open>p_team\<close> are
  \<^verbatim>\<open>p.categories?.location\<close> and \<^verbatim>\<open>p.categories?.team\<close>.
\<close>

record LeverPosting =
  p_text :: string
  p_location :: "string option"
  p_team :: "string option"
  p_hostedUrl :: "string option"
  p_applyUrl :: string
  p_createdAt :: "int option"
  p_descriptionPlain :: "string option"
  p_description :: "string option"

text \<open>The argument of ts-jobspy's \<^verbatim>\<open>scrapeJobs\<close>, as \<^verbatim>\<open>searchJobSpy\<close> builds it.\<close>

datatype site_name = OneSite string | Sites "string list"

record ScrapeJobsOptions =
  siteName :: site_name
  searchTerm :: string
  scrape_location :: "string option"
  scrape_isRemote :: "bool option"
  resultsWanted :: int
  scrape_jobType :: "string option"
  scrape_hoursOld :: "int option"
  descriptionFormat :: string
  linkedinFetchDescription :: bool

subsection \<open>The outside world: the scraper and HTTP\<close>

datatype 'a settled = Rejected | Fulfilled 'a

datatype body =
    JobsObject "GreenhouseJob list option"  \<comment> \<open>an object, with or without a \<^verbatim>\<open>jobs\<close> array\<close>
  | PostingsArray "LeverPosting list"       \<comment> \<open>a bare array of postings\<close>

datatype response =
    FetchRejected   \<comment> \<open>\<^verbatim>\<open>fetch\<close> rejects\<close>
  | NotOk           \<comment> \<open>a response whose \<^verbatim>\<open>ok\<close> is false\<close>
  | JsonRejected    \<comment> \<open>\<^verbatim>\<open>res.json()\<close> rejects\<close>
  | Malformed       \<comment> \<open>a body on which the adapter's code throws\<close>
  | Json body

record world =
  scrapeJobs :: "ScrapeJobsOptions \<Rightarrow> JobData list settled"
  fetch :: "string \<Rightarrow> response"

text \<open>What a search asks of the outside world.\<close>

datatype call = Scrape ScrapeJobsOptions | Fetch string

subsection \<open>The ts-jobspy adapter: \<^verbatim>\<open>searchJobSpy\<close>\<close>

definition jobspy_siteName :: "SearchOptions \<Rightarrow> site_name" where
  \<comment> \<open>\<^verbatim>\<open>opts.site && siteMap[opts.site]\<close>, for the own keys of \<^verbatim>\<open>siteMap\<close>; \<^verbatim>\<open>search\<close> calls
      the adapter only with a site that is absent, empty or one of these two keys\<close>
  "jobspy_siteName opts =
     (if truthy_str (opt_site opts) \<and> the (opt_site opts) \<in> set [''linkedin'', ''indeed'']
      then OneSite (the (opt_site opts))
      else Sites [''linkedin'', ''indeed''])"

definition scrape_request :: "string \<Rightarrow> SearchOptions \<Rightarrow> ScrapeJobsOptions" where
  "scrape_request query opts =
     \<lparr> siteName = jobspy_siteName opts,
       searchTerm = query,
       scrape_location = opt_location opts,
       scrape_isRemote = opt_remote opts,
       resultsWanted = (if truthy_num (opt_results opts) then the (opt_results opts) else 15),
       scrape_jobType = opt_jobType opts,
       scrape_hoursOld = opt_hoursOld opts,
       descriptionFormat = ''markdown'',
       linkedinFetchDescription = True \<rparr>"

definition jobspy_job :: "JobData \<Rightarrow> JobResult" where
  "jobspy_job r =
     \<lparr> title = or_str (Some (r_title r)) ''Untitled'',
       company = or_str (r_company r) ''Unknown'',
       location = or_str (r_location r) ''Unknown'',
       isRemote = (case r_isRemote r of None \<Rightarrow> False | Some b \<Rightarrow> b),
       jobUrl = r_jobUrl r,
       source = or_str (Some (r_site r)) ''jobspy'',
       datePosted = or_null (r_datePosted r),
       salary = formatSalary (r_minAmount r) (r_maxAmount r) (r_interval r) (r_currency r),
       description = or_str (r_description r) [] \<rparr>"

definition searchJobSpy ::
  "world \<Rightarrow> string \<Rightarrow> SearchOptions \<Rightarrow> JobResult list settled \<times> call list" where
  "searchJobSpy w query opts =
     (let req = scrape_request query opts
      in (case scrapeJobs w req of
            Rejected \<Rightarrow> Rejected
          | Fulfilled results \<Rightarrow> Fulfilled (map jobspy_job results),
          [Scrape req]))"

subsection \<open>The relevance filter of the two REST adapters\<close>

definition matches_query :: "string \<Rightarrow> string \<Rightarrow> bool" where
  \<comment> \<open>\<^verbatim>\<open>queryLower.split(/\s+/).some((w) => text.includes(w))\<close>, with \<^verbatim>\<open>queryLower = query.toLowerCase()\<close>\<close>
  "matches_query query text = list_ex (\<lambda>w. str_includes text w) (split_ws (toLowerCase query))"

definition greenhouse_text :: "GreenhouseJob \<Rightarrow> string" where
  "greenhouse_text j = toLowerCase (j_title j @ '' '' @ or_str (j_location_name j) [])"

definition lever_text :: "LeverPosting \<Rightarrow> string" where
  "lever_text p =
     toLowerCase (p_text p @ '' '' @ or_str (p_location p) [] @ '' '' @ or_str (p_team p) [])"

subsection \<open>The Greenhouse adapter: \<^verbatim>\<open>searchGreenhouse\<close>\<close>

definition greenhouse_url :: "string \<Rightarrow> string" where
  "greenhouse_url board = ''https://boards-api.greenhouse.io/v1/boards/'' @ board @ ''/jobs?content=true''"

definition greenhouse_job :: "string \<Rightarrow> GreenhouseJob \<Rightarrow> JobResult" where
  "greenhouse_job board j =
     \<lparr> title = j_title j,
       company = board,
       location = or_str (j_location_name j) ''Unknown'',
       isRemote = test_remote (or_str (j_location_name j) []),
       jobUrl = j_absolute_url j,
       source = ''greenhouse'',
       datePosted = or_null (j_updated_at j),
       salary = None,
       description = or_str (j_content j) [] \<rparr>"

definition greenhouse_board :: "world \<Rightarrow> string \<Rightarrow> string \<Rightarrow> JobResult list" where
  \<comment> \<open>one turn of the loop: what the board adds to \<^verbatim>\<open>results\<close>\<close>
  "greenhouse_board w query board =
     (case fetch w (greenhouse_url board) of
        Json (JobsObject data_jobs) \<Rightarrow>
          map (greenhouse_job board)
            (filter (\<lambda>j. matches_query query (greenhouse_text j))
               (case data_jobs of None \<Rightarrow> [] | Some js \<Rightarrow> js))
      | Json (PostingsArray ps) \<Rightarrow> []  \<comment> \<open>an array has no \<^verbatim>\<open>jobs\<close>: \<^verbatim>\<open>data.jobs || []\<close> is empty\<close>
      | NotOk \<Rightarrow> []                    \<comment> \<open>\<^verbatim>\<open>if (!res.ok) continue\<close>\<close>
      | _ \<Rightarrow> [])                       \<comment> \<open>\<^verbatim>\<open>catch\<close>: the board is skipped\<close>"

primrec searchGreenhouse :: "world \<Rightarrow> string \<Rightarrow> string list \<Rightarrow> JobResult list \<times> call list" where
  "searchGreenhouse w query [] = ([], [])"
| "searchGreenhouse w query (board # boards) =
     (let (results, calls) = searchGreenhouse w query boards
      in (greenhouse_board w query board @ results, Fetch (greenhouse_url board) # calls))"

subsection \<open>The Lever adapter: \<^verbatim>\<open>searchLever\<close>\<close>

definition lever_url :: "string \<Rightarrow> string" where
  "lever_url site = ''https://api.lever.co/v0/postings/'' @ site @ ''?mode=json''"

definition lever_datePosted :: "int option \<Rightarrow> string option option" where
  \<comment> \<open>\<^verbatim>\<open>p.createdAt ? new Date(p.createdAt).toISOString() : null\<close>; the outer \<open>None\<close> is the RangeError\<close>
  "lever_datePosted createdAt =
     (if truthy_num createdAt then
        (case toISOString (the createdAt) of None \<Rightarrow> None | Some str \<Rightarrow> Some (Some str))
      else Some None)"

definition lever_job :: "string \<Rightarrow> LeverPosting \<Rightarrow> JobResult option" where
  "lever_job site p =
     (let loc = or_str (p_location p) ''Unknown''
      in case lever_datePosted (p_createdAt p) of
           None \<Rightarrow> None
         | Some date \<Rightarrow>
             Some \<lparr> title = p_text p,
                    company = site,
                    location = loc,
                    isRemote = test_remote loc,
                    jobUrl = or_str (p_hostedUrl p) (p_applyUrl p),
                    source = ''lever'',
                    datePosted = date,
                    salary = None,
                    description = or_str (p_descriptionPlain p) (or_str (p_description p) []) \<rparr>)"

fun lever_push :: "string \<Rightarrow> LeverPosting list \<Rightarrow> JobResult list" where
  \<comment> \<open>the inner loop over \<^verbatim>\<open>filtered\<close>: a RangeError leaves it for the \<^verbatim>\<open>catch\<close>, and what was
      pushed before stays in \<^verbatim>\<open>results\<close>\<close>
  "lever_push site [] = []"
| "lever_push site (p # ps) =
     (case lever_job site p of None \<Rightarrow> [] | Some job \<Rightarrow> job # lever_push site ps)"

definition lever_site :: "world \<Rightarrow> string \<Rightarrow> string \<Rightarrow> JobResult list" where
  \<comment> \<open>one turn of the outer loop: what the site adds to \<^verbatim>\<open>results\<close>\<close>
  "lever_site w query site =
     (case fetch w (lever_url site) of
        Json (PostingsArray postings) \<Rightarrow>
          lever_push site (filter (\<lambda>p. matches_query query (lever_text p)) postings)
      | Json (JobsObject data_jobs) \<Rightarrow> []  \<comment> \<open>\<^verbatim>\<open>postings.filter\<close> is not a function: \<^verbatim>\<open>catch\<close>\<close>
      | NotOk \<Rightarrow> []                        \<comment> \<open>\<^verbatim>\<open>if (!res.ok) continue\<close>\<close>
      | _ \<Rightarrow> [])                           \<comment> \<open>\<^verbatim>\<open>catch\<close>: the site is skipped\<close>"

primrec searchLever :: "world \<Rightarrow> string \<Rightarrow> string list \<Rightarrow> JobResult list \<times> call list" where
  "searchLever w query [] = ([], [])"
| "searchLever w query (site # sites) =
     (let (results, calls) = searchLever w query sites
      in (lever_site w query site @ results, Fetch (lever_url site) # calls))"

subsection \<open>\<^verbatim>\<open>dedupe\<close>\<close>

definition dedup_key :: "JobResult \<Rightarrow> string" where
  \<comment> \<open>\<^verbatim>\<open>j.jobUrl.replace(/\?.*$/, "").replace(/\/+$/, "").toLowerCase()\<close>, with \<^verbatim>\<open>j.jobUrl\<close> a
      string\<close>
  "dedup_key j = toLowerCase (strip_trailing_slashes (strip_query (jobUrl j)))"

fun dedupe_from :: "string set \<Rightarrow> JobResult list \<Rightarrow> JobResult list" where
  \<comment> \<open>the filter, from a given content of the set \<^verbatim>\<open>seen\<close>\<close>
  "dedupe_from seen [] = []"
| "dedupe_from seen (j # jobs) =
     (let key = dedup_key j
      in if key \<in> seen then dedupe_from seen jobs
         else j # dedupe_from (insert key seen) jobs)"

definition dedupe :: "JobResult list \<Rightarrow> JobResult list" where
  "dedupe jobs = dedupe_from {} jobs"

subsection \<open>\<^verbatim>\<open>JSON.stringify(opts)\<close>\<close>

definition hex_char :: "nat \<Rightarrow> char" where
  "hex_char d = ''0123456789abcdef'' ! d"

definition json_escape :: "char \<Rightarrow> string" where
  \<comment> \<open>the escapes of a JSON string: the quotation mark, the backslash and the control characters\<close>
  "json_escape c =
     (let n = (of_char c :: nat)
      in if n = 34 then [CHR 0x5C, CHR 0x22]
         else if n = 92 then [CHR 0x5C, CHR 0x5C]
         else if n = 8 then [CHR 0x5C, CHR ''b'']
         else if n = 9 then [CHR 0x5C, CHR ''t'']
         else if n = 10 then [CHR 0x5C, CHR ''n'']
         else if n = 12 then [CHR 0x5C, CHR ''f'']
         else if n = 13 then [CHR 0x5C, CHR ''r'']
         else if n < 32 then [CHR 0x5C, CHR ''u'', CHR ''0'', CHR ''0'', hex_char (n div 16), hex_char (n mod 16)]
         else [c])"

definition json_string :: "string \<Rightarrow> string" where
  "json_string s = [CHR 0x22] @ concat (map json_escape s) @ [CHR 0x22]"

definition json_number :: "int \<Rightarrow> string" where
  "json_number n = (if n < 0 then ''-'' else []) @ dec_digits (nat \<bar>n\<bar>)"

definition json_bool :: "bool \<Rightarrow> string" where
  "json_bool b = (if b then ''true'' else ''false'')"

fun join :: "string \<Rightarrow> string list \<Rightarrow> string" where
  "join sep [] = []"
| "join sep [x] = x"
| "join sep (x # y # ys) = x @ sep @ join sep (y # ys)"

definition json_array :: "string list \<Rightarrow> string" where
  "json_array xs = ''['' @ join '','' (map json_string xs) @ '']''"

definition json_member :: "string \<Rightarrow> string option \<Rightarrow> string list" where
  \<comment> \<open>a property whose value is \<^verbatim>\<open>undefined\<close> is left out\<close>
  "json_member k v = (case v of None \<Rightarrow> [] | Some text \<Rightarrow> [json_string k @ '':'' @ text])"

definition JSON_stringify :: "SearchOptions \<Rightarrow> string" where
  \<comment> \<open>the properties in the order in which the callers' object literals write them\<close>
  "JSON_stringify opts =
     ''{'' @ join '',''
       (json_member ''site'' (map_option json_string (opt_site opts))
        @ json_member ''location'' (map_option json_string (opt_location opts))
        @ json_member ''remote'' (map_option json_bool (opt_remote opts))
        @ json_member ''results'' (map_option json_number (opt_results opts))
        @ json_member ''hoursOld'' (map_option json_number (opt_hoursOld opts))
        @ json_member ''jobType'' (map_option json_string (opt_jobType opts))
        @ json_member ''greenhouseBoards'' (map_option json_array (opt_greenhouseBoards opts))
        @ json_member ''leverSites'' (map_option json_array (opt_leverSites opts))
        @ json_member ''proxy'' (map_option json_string (opt_proxy opts)))
     @ ''}''"

subsection \<open>The cache\<close>

text \<open>
  Modelled from the spec: \<^verbatim>\<open>lib/cache.ts\<close> is not among the sources; only its callers are
  (\<^verbatim>\<open>search\<close> in lib/search.ts and \<^verbatim>\<open>cmdCache\<close> in job-hunt.ts). The definitions below
  follow the contract of the specification: \<^verbatim>\<open>get(namespaceKey, paramsKey, ttlMs)\<close>,
  \<^verbatim>\<open>set(namespaceKey, paramsKey, value)\<close>, \<^verbatim>\<open>clear()\<close> and \<^verbatim>\<open>prune()\<close>; an entry is
  \<^verbatim>\<open>{ value, storedAt }\<close> and is valid iff \<^verbatim>\<open>now - storedAt <= ttlMs\<close>; \<^verbatim>\<open>get\<close> does not
  delete; \<^verbatim>\<open>prune\<close> deletes the entries older than the 30 minutes, \<^verbatim>\<open>clear\<close> all, and
  both return the number of entries removed. The store is keyed by the pair of the two
  keys. The time \<open>now\<close> is the clock reading (milliseconds) at the call.
\<close>

record 'v CacheEntry =
  entry_value :: 'v
  storedAt :: int

type_synonym 'v cache = "((string \<times> string) \<times> 'v CacheEntry) list"

definition cache_get ::
  "'v cache \<Rightarrow> string \<Rightarrow> string \<Rightarrow> int \<Rightarrow> int \<Rightarrow> 'v option \<times> 'v cache" where
  \<comment> \<open>Modelled from the spec: \<^verbatim>\<open>get\<close> of the absent lib/cache.ts; the store is returned as it was\<close>
  "cache_get c namespaceKey paramsKey ttlMs now =
     (case map_of c (namespaceKey, paramsKey) of
        None \<Rightarrow> (None, c)
      | Some e \<Rightarrow> if now - storedAt e \<le> ttlMs then (Some (entry_value e), c) else (None, c))"

definition cache_set :: "'v cache \<Rightarrow> string \<Rightarrow> string \<Rightarrow> 'v \<Rightarrow> int \<Rightarrow> 'v cache" where
  \<comment> \<open>Modelled from the spec: \<^verbatim>\<open>set\<close> of the absent lib/cache.ts; it overwrites the entry of the key\<close>
  "cache_set c namespaceKey paramsKey v now =
     ((namespaceKey, paramsKey), \<lparr> entry_value = v, storedAt = now \<rparr>)
       # filter (\<lambda>kv. fst kv \<noteq> (namespaceKey, paramsKey)) c"

definition CACHE_TTL_MS :: int where
  \<comment> \<open>the constant of lib/search.ts: 30 minutes, the age beyond which the specification
      has \<^verbatim>\<open>prune\<close> delete an entry\<close>
  "CACHE_TTL_MS = 30 * 60 * 1000"

definition cache_prune :: "'v cache \<Rightarrow> int \<Rightarrow> nat \<times> 'v cache" where
  \<comment> \<open>Modelled from the spec: \<^verbatim>\<open>prune\<close> of the absent lib/cache.ts\<close>
  "cache_prune c now =
     (length (filter (\<lambda>kv. now - storedAt (snd kv) > CACHE_TTL_MS) c),
      filter (\<lambda>kv. \<not> now - storedAt (snd kv) > CACHE_TTL_MS) c)"

definition cache_clear :: "'v cache \<Rightarrow> nat \<times> 'v cache" where
  \<comment> \<open>Modelled from the spec: \<^verbatim>\<open>clear\<close> of the absent lib/cache.ts\<close>
  "cache_clear c = (length c, [])"

subsection \<open>\<^verbatim>\<open>search\<close>\<close>

datatype adapter = JobSpy | Greenhouse | Lever

definition adapters :: "SearchOptions \<Rightarrow> adapter list" where
  \<comment> \<open>which calls \<^verbatim>\<open>search\<close> pushes on \<^verbatim>\<open>promises\<close>, in this order\<close>
  "adapters opts =
     (if \<not> truthy_str (opt_site opts) \<or> the (opt_site opts) \<in> set [''linkedin'', ''indeed'']
      then [JobSpy] else [])
     @ (if (case opt_greenhouseBoards opts of None \<Rightarrow> False | Some boards \<Rightarrow> length boards > 0)
        then [Greenhouse] else [])
     @ (if (case opt_leverSites opts of None \<Rightarrow> False | Some sites \<Rightarrow> length sites > 0)
        then [Lever] else [])"

definition run_adapter ::
  "world \<Rightarrow> string \<Rightarrow> SearchOptions \<Rightarrow> adapter \<Rightarrow> JobResult list \<times> call list" where
  \<comment> \<open>the list a pushed promise is fulfilled with, and what the call asked of the world\<close>
  "run_adapter w query opts a =
     (case a of
        JobSpy \<Rightarrow>
          (case searchJobSpy w query opts of
             (Rejected, calls) \<Rightarrow> ([], calls)  \<comment> \<open>\<^verbatim>\<open>.catch((e) => [])\<close>, with \<^verbatim>\<open>e\<close> an \<^verbatim>\<open>Error\<close>\<close>
           | (Fulfilled results, calls) \<Rightarrow> (results, calls))
      | Greenhouse \<Rightarrow> searchGreenhouse w query (the (opt_greenhouseBoards opts))
      | Lever \<Rightarrow> searchLever w query (the (opt_leverSites opts)))"

definition search ::
  "world \<Rightarrow> JobResult list cache \<Rightarrow> string \<Rightarrow> SearchOptions \<Rightarrow> int \<Rightarrow> int
     \<Rightarrow> JobResult list \<times> JobResult list cache \<times> call list" where
  \<comment> \<open>\<open>t_get\<close> and \<open>t_set\<close> are the clock readings at \<^verbatim>\<open>cache.get\<close> and at \<^verbatim>\<open>cache.set\<close>;
      the result is the returned list, the cache afterwards and the calls made\<close>
  "search w c query opts t_get t_set =
     (let cacheParams = JSON_stringify opts;
          (cached, c1) = cache_get c query cacheParams CACHE_TTL_MS t_get
      in case cached of
           Some jobs \<Rightarrow> (jobs, c1, [])
         | None \<Rightarrow>
             let runs = map (run_adapter w query opts) (adapters opts);
                 allResults = concat (map fst runs);
                 deduped = dedupe allResults
             in (deduped, cache_set c1 query cacheParams deduped t_set, concat (map snd runs)))"

subsection \<open>The search on payloads as they arrive\<close>

text \<open>
  The definitions above take every payload at its declared or documented type. At run
  time the types are erased: \<^verbatim>\<open>res.json()\<close> and the reason of a rejection are of type
  \<^verbatim>\<open>any\<close>, and the records of the scraper are not checked against \<^verbatim>\<open>JobData\<close>. Two
  things can then happen in \<^verbatim>\<open>search\<close> outside every \<^verbatim>\<open>try\<close>:
  \<^item> a record has no URL; the result built from it has no \<^verbatim>\<open>jobUrl\<close>, and \<^verbatim>\<open>dedupe\<close>
    throws a TypeError at \<^verbatim>\<open>j.jobUrl.replace\<close>;
  \<^item> the promise of the scraper is rejected with \<^verbatim>\<open>null\<close> or \<^verbatim>\<open>undefined\<close>; the handler
    of \<^verbatim>\<open>.catch\<close> then throws a TypeError at \<^verbatim>\<open>e.message\<close>, and \<^verbatim>\<open>Promise.all\<close> rejects.

  The definitions of this subsection are the same functions with these two cases: a URL
  that may be missing and a rejection with its reason. A field that is present has its
  documented type; a URL that is no string counts as missing. An exception that leaves
  \<^verbatim>\<open>search\<close> is the value \<open>Inl\<close> of the result; the cache is then not written, and the
  calls made before are not listed. A fulfilment of the scraper on which the code of
  \<^verbatim>\<open>searchJobSpy\<close> itself throws (no array, a record that is \<^verbatim>\<open>null\<close>) rejects the promise of
  the adapter with that TypeError, and is a rejection with a reason here.
\<close>

datatype error = TypeError

datatype reason =
    Nullish     \<comment> \<open>\<^verbatim>\<open>null\<close> or \<^verbatim>\<open>undefined\<close>: reading \<^verbatim>\<open>e.message\<close> throws\<close>
  | NonNullish  \<comment> \<open>any other value, an \<^verbatim>\<open>Error\<close> object for one: \<^verbatim>\<open>e.message\<close> can be read\<close>

datatype 'a promise = RejectedWith reason | FulfilledWith 'a

text \<open>A result as an adapter builds it: \<^verbatim>\<open>jobUrl\<close> is whatever the record held.\<close>

record JobResult_any =
  a_title :: string
  a_company :: string
  a_location :: string
  a_isRemote :: bool
  a_jobUrl :: "string option"
  a_source :: string
  a_datePosted :: "string option"
  a_salary :: "string option"
  a_description :: string

record JobData_any =
  ar_title :: string
  ar_company :: "string option"
  ar_location :: "string option"
  ar_isRemote :: "bool option"
  ar_jobUrl :: "string option"
  ar_site :: string
  ar_datePosted :: "string option"
  ar_minAmount :: "int option"
  ar_maxAmount :: "int option"
  ar_interval :: "string option"
  ar_currency :: "string option"
  ar_description :: "string option"

record GreenhouseJob_any =
  aj_title :: string
  aj_location_name :: "string option"
  aj_absolute_url :: "string option"
  aj_updated_at :: "string option"
  aj_content :: "string option"

record LeverPosting_any =
  ap_text :: string
  ap_location :: "string option"
  ap_team :: "string option"
  ap_hostedUrl :: "string option"
  ap_applyUrl :: "string option"
  ap_createdAt :: "int option"
  ap_descriptionPlain :: "string option"
  ap_description :: "string option"

datatype body_any =
    JobsObject_any "GreenhouseJob_any list option"
  | PostingsArray_any "LeverPosting_any list"

datatype response_any =
    FetchRejected_any
  | NotOk_any
  | JsonRejected_any
  | Malformed_any
  | Json_any body_any

record world_any =
  scrapeJobs_any :: "ScrapeJobsOptions \<Rightarrow> JobData_any list promise"
  fetch_any :: "string \<Rightarrow> response_any"

definition jobspy_job_any :: "JobData_any \<Rightarrow> JobResult_any" where
  "jobspy_job_any r =
     \<lparr> a_title = or_str (Some (ar_title r)) ''Untitled'',
       a_company = or_str (ar_company r) ''Unknown'',
       a_location = or_str (ar_location r) ''Unknown'',
       a_isRemote = (case ar_isRemote r of None \<Rightarrow> False | Some b \<Rightarrow> b),
       a_jobUrl = ar_jobUrl r,
       a_source = or_str (Some (ar_site r)) ''jobspy'',
       a_datePosted = or_null (ar_datePosted r),
       a_salary = formatSalary (ar_minAmount r) (ar_maxAmount r) (ar_interval r) (ar_currency r),
       a_description = or_str (ar_description r) [] \<rparr>"

definition searchJobSpy_any ::
  "world_any \<Rightarrow> string \<Rightarrow> SearchOptions \<Rightarrow> JobResult_any list promise \<times> call list" where
  "searchJobSpy_any w query opts =
     (let req = scrape_request query opts
      in (case scrapeJobs_any w req of
            RejectedWith e \<Rightarrow> RejectedWith e
          | FulfilledWith results \<Rightarrow> FulfilledWith (map jobspy_job_any results),
          [Scrape req]))"

definition greenhouse_text_any :: "GreenhouseJob_any \<Rightarrow> string" where
  "greenhouse_text_any j = toLowerCase (aj_title j @ '' '' @ or_str (aj_location_name j) [])"

definition greenhouse_job_any :: "string \<Rightarrow> GreenhouseJob_any \<Rightarrow> JobResult_any" where
  "greenhouse_job_any board j =
     \<lparr> a_title = aj_title j,
       a_company = board,
       a_location = or_str (aj_location_name j) ''Unknown'',
       a_isRemote = test_remote (or_str (aj_location_name j) []),
       a_jobUrl = aj_absolute_url j,
       a_source = ''greenhouse'',
       a_datePosted = or_null (aj_updated_at j),
       a_salary = None,
       a_description = or_str (aj_content j) [] \<rparr>"

definition greenhouse_board_any :: "world_any \<Rightarrow> string \<Rightarrow> string \<Rightarrow> JobResult_any list" where
  "greenhouse_board_any w query board =
     (case fetch_any w (greenhouse_url board) of
        Json_any (JobsObject_any data_jobs) \<Rightarrow>
          map (greenhouse_job_any board)
            (filter (\<lambda>j. matches_query query (greenhouse_text_any j))
               (case data_jobs of None \<Rightarrow> [] | Some js \<Rightarrow> js))
      | Json_any (PostingsArray_any ps) \<Rightarrow> []
      | NotOk_any \<Rightarrow> []
      | _ \<Rightarrow> [])"

primrec searchGreenhouse_any ::
  "world_any \<Rightarrow> string \<Rightarrow> string list \<Rightarrow> JobResult_any list \<times> call list" where
  "searchGreenhouse_any w query [] = ([], [])"
| "searchGreenhouse_any w query (board # boards) =
     (let (results, calls) = searchGreenhouse_any w query boards
      in (greenhouse_board_any w query board @ results, Fetch (greenhouse_url board) # calls))"

definition lever_text_any :: "LeverPosting_any \<Rightarrow> string" where
  "lever_text_any p =
     toLowerCase (ap_text p @ '' '' @ or_str (ap_location p) [] @ '' '' @ or_str (ap_team p) [])"

definition lever_job_any :: "string \<Rightarrow> LeverPosting_any \<Rightarrow> JobResult_any option" where
  \<comment> \<open>\<open>None\<close> is the RangeError of \<^verbatim>\<open>toISOString\<close>; \<^verbatim>\<open>p.hostedUrl || p.applyUrl\<close> is the second
      operand, present or not, unless the first is a non-empty string\<close>
  "lever_job_any site p =
     (let loc = or_str (ap_location p) ''Unknown''
      in case lever_datePosted (ap_createdAt p) of
           None \<Rightarrow> None
         | Some date \<Rightarrow>
             Some \<lparr> a_title = ap_text p,
                    a_company = site,
                    a_location = loc,
                    a_isRemote = test_remote loc,
                    a_jobUrl = (if truthy_str (ap_hostedUrl p) then ap_hostedUrl p else ap_applyUrl p),
                    a_source = ''lever'',
                    a_datePosted = date,
                    a_salary = None,
                    a_description = or_str (ap_descriptionPlain p) (or_str (ap_description p) []) \<rparr>)"

fun lever_push_any :: "string \<Rightarrow> LeverPosting_any list \<Rightarrow> JobResult_any list" where
  "lever_push_any site [] = []"
| "lever_push_any site (p # ps) =
     (case lever_job_any site p of None \<Rightarrow> [] | Some job \<Rightarrow> job # lever_push_any site ps)"

definition lever_site_any :: "world_any \<Rightarrow> string \<Rightarrow> string \<Rightarrow> JobResult_any list" where
  "lever_site_any w query site =
     (case fetch_any w (lever_url site) of
        Json_any (PostingsArray_any postings) \<Rightarrow>
          lever_push_any site (filter (\<lambda>p. matches_query query (lever_text_any p)) postings)
      | Json_any (JobsObject_any data_jobs) \<Rightarrow> []
      | NotOk_any \<Rightarrow> []
      | _ \<Rightarrow> [])"

primrec searchLever_any ::
  "world_any \<Rightarrow> string \<Rightarrow> string list \<Rightarrow> JobResult_any list \<times> call list" where
  "searchLever_any w query [] = ([], [])"
| "searchLever_any w query (site # sites) =
     (let (results, calls) = searchLever_any w query sites
      in (lever_site_any w query site @ results, Fetch (lever_url site) # calls))"

definition with_url :: "JobResult_any \<Rightarrow> string \<Rightarrow> JobResult" where
  \<comment> \<open>a result whose \<^verbatim>\<open>jobUrl\<close> is the given string, as a \<^verbatim>\<open>JobResult\<close>\<close>
  "with_url j url =
     \<lparr> title = a_title j, company = a_company j, location = a_location j,
       isRemote = a_isRemote j, jobUrl = url, source = a_source j,
       datePosted = a_datePosted j, salary = a_salary j, description = a_description j \<rparr>"

fun dedupe_any_from :: "string set \<Rightarrow> JobResult_any list \<Rightarrow> error + JobResult list" where
  \<comment> \<open>the filter of \<^verbatim>\<open>dedupe\<close>, from a given content of \<^verbatim>\<open>seen\<close>: the callback throws at the
      first job without a URL; a job that it passes has one\<close>
  "dedupe_any_from seen [] = Inr []"
| "dedupe_any_from seen (j # jobs) =
     (case a_jobUrl j of
        None \<Rightarrow> Inl TypeError
      | Some url \<Rightarrow>
          let key = toLowerCase (strip_trailing_slashes (strip_query url))
          in if key \<in> seen then dedupe_any_from seen jobs
             else (case dedupe_any_from (insert key seen) jobs of
                     Inl e \<Rightarrow> Inl e
                   | Inr kept \<Rightarrow> Inr (with_url j url # kept)))"

definition dedupe_any :: "JobResult_any list \<Rightarrow> error + JobResult list" where
  "dedupe_any jobs = dedupe_any_from {} jobs"

definition run_adapter_any ::
  "world_any \<Rightarrow> string \<Rightarrow> SearchOptions \<Rightarrow> adapter \<Rightarrow> (error + JobResult_any list) \<times> call list" where
  \<comment> \<open>how a pushed promise settles: rejected with an error, or fulfilled with a list\<close>
  "run_adapter_any w query opts a =
     (case a of
        JobSpy \<Rightarrow>
          (case searchJobSpy_any w query opts of
             (RejectedWith e, calls) \<Rightarrow>
               \<comment> \<open>\<^verbatim>\<open>.catch((e) => { console.error(`(jobspy error: ${e.message})`); return []; })\<close>\<close>
               (case e of Nullish \<Rightarrow> (Inl TypeError, calls) | NonNullish \<Rightarrow> (Inr [], calls))
           | (FulfilledWith results, calls) \<Rightarrow> (Inr results, calls))
      | Greenhouse \<Rightarrow>
          (let (results, calls) = searchGreenhouse_any w query (the (opt_greenhouseBoards opts))
           in (Inr results, calls))
      | Lever \<Rightarrow>
          (let (results, calls) = searchLever_any w query (the (opt_leverSites opts))
           in (Inr results, calls)))"

fun promise_all :: "(error + 'a) list \<Rightarrow> error + 'a list" where
  \<comment> \<open>\<^verbatim>\<open>Promise.all\<close>: rejected if one of the promises is, fulfilled with all the values otherwise\<close>
  "promise_all [] = Inr []"
| "promise_all (p # ps) =
     (case p of
        Inl e \<Rightarrow> Inl e
      | Inr x \<Rightarrow> (case promise_all ps of Inl e \<Rightarrow> Inl e | Inr xs \<Rightarrow> Inr (x # xs)))"

definition search_any ::
  "world_any \<Rightarrow> JobResult list cache \<Rightarrow> string \<Rightarrow> SearchOptions \<Rightarrow> int \<Rightarrow> int
     \<Rightarrow> error + JobResult list \<times> JobResult list cache \<times> call list" where
  "search_any w c query opts t_get t_set =
     (let cacheParams = JSON_stringify opts;
          (cached, c1) = cache_get c query cacheParams CACHE_TTL_MS t_get
      in case cached of
           Some jobs \<Rightarrow> Inr (jobs, c1, [])
         | None \<Rightarrow>
             let runs = map (run_adapter_any w query opts) (adapters opts)
             in case promise_all (map fst runs) of
                  Inl e \<Rightarrow> Inl e
                | Inr values \<Rightarrow>
                    (case dedupe_any (concat values) of
                       Inl e \<Rightarrow> Inl e
                     | Inr deduped \<Rightarrow>
                         Inr (deduped, cache_set c1 query cacheParams deduped t_set,
                              concat (map snd runs))))"

subsection \<open>Notions used to state the properties\<close>

text \<open>
  A payload of its declared type, as it arrives; a rejection of the scraper of a \<open>world\<close>
  is one with an \<^verbatim>\<open>Error\<close>. A fetch fails when it rejects, when the status is not a
  success, when the body is not JSON or has a shape on which the code throws.
\<close>

definition any_job :: "JobResult \<Rightarrow> JobResult_any" where
  "any_job j =
     \<lparr> a_title = title j, a_company = company j, a_location = location j,
       a_isRemote = isRemote j, a_jobUrl = Some (jobUrl j), a_source = source j,
       a_datePosted = datePosted j, a_salary = salary j, a_description = description j \<rparr>"

definition any_record :: "JobData \<Rightarrow> JobData_any" where
  "any_record r =
     \<lparr> ar_title = r_title r, ar_company = r_company r, ar_location = r_location r,
       ar_isRemote = r_isRemote r, ar_jobUrl = Some (r_jobUrl r), ar_site = r_site r,
       ar_datePosted = r_datePosted r, ar_minAmount = r_minAmount r,
       ar_maxAmount = r_maxAmount r, ar_interval = r_interval r, ar_currency = r_currency r,
       ar_description = r_description r \<rparr>"

definition any_greenhouse_job :: "GreenhouseJob \<Rightarrow> GreenhouseJob_any" where
  "any_greenhouse_job j =
     \<lparr> aj_title = j_title j, aj_location_name = j_location_name j,
       aj_absolute_url = Some (j_absolute_url j), aj_updated_at = j_updated_at j,
       aj_content = j_content j \<rparr>"

definition any_posting :: "LeverPosting \<Rightarrow> LeverPosting_any" where
  "any_posting p =
     \<lparr> ap_text = p_text p, ap_location = p_location p, ap_team = p_team p,
       ap_hostedUrl = p_hostedUrl p, ap_applyUrl = Some (p_applyUrl p),
       ap_createdAt = p_createdAt p, ap_descriptionPlain = p_descriptionPlain p,
       ap_description = p_description p \<rparr>"

definition any_response :: "response \<Rightarrow> response_any" where
  "any_response r =
     (case r of
        FetchRejected \<Rightarrow> FetchRejected_any
      | NotOk \<Rightarrow> NotOk_any
      | JsonRejected \<Rightarrow> JsonRejected_any
      | Malformed \<Rightarrow> Malformed_any
      | Json (JobsObject data_jobs) \<Rightarrow> Json_any (JobsObject_any (map_option (map any_greenhouse_job) data_jobs))
      | Json (PostingsArray ps) \<Rightarrow> Json_any (PostingsArray_any (map any_posting ps)))"

definition any_world :: "world \<Rightarrow> world_any" where
  "any_world w =
     \<lparr> scrapeJobs_any = (\<lambda>req. case scrapeJobs w req of
                                  Rejected \<Rightarrow> RejectedWith NonNullish
                                | Fulfilled rs \<Rightarrow> FulfilledWith (map any_record rs)),
       fetch_any = (\<lambda>url. any_response (fetch w url)) \<rparr>"



definition adapter_results_any ::
  "world_any \<Rightarrow> string \<Rightarrow> SearchOptions \<Rightarrow> adapter \<Rightarrow> JobResult_any list" where
  \<comment> \<open>the list the adapter's promise is fulfilled with; none if it is rejected\<close>
  "adapter_results_any w query opts a =
     (case fst (run_adapter_any w query opts a) of Inl e \<Rightarrow> [] | Inr results \<Rightarrow> results)"

text \<open>
  The relevance filter in the words of the specification: the tokens of the query are its
  maximal runs of characters that are not white space, and a posting is relevant iff one
  of the tokens of the lower-cased query occurs in the lower-cased text.
\<close>

primrec spec_tokens_from :: "string \<Rightarrow> string \<Rightarrow> string list" where
  \<comment> \<open>the first argument is the token being read\<close>
  "spec_tokens_from tok [] = (if tok = [] then [] else [tok])"
| "spec_tokens_from tok (c # cs) =
     (if is_space c then (if tok = [] then [] else [tok]) @ spec_tokens_from [] cs
      else spec_tokens_from (tok @ [c]) cs)"

definition spec_tokens :: "string \<Rightarrow> string list" where
  "spec_tokens s = spec_tokens_from [] s"

definition spec_relevant :: "string \<Rightarrow> string \<Rightarrow> bool" where
  "spec_relevant query text =
     list_ex (\<lambda>w. str_includes (toLowerCase text) w) (spec_tokens (toLowerCase query))"

subsection \<open>Example data\<close>

definition example_job :: "string \<Rightarrow> string \<Rightarrow> JobResult" where
  \<comment> \<open>a result of the given source and URL\<close>
  "example_job src url =
     \<lparr> title = ''Backend Engineer'', company = ''acme'', location = ''Remote'', isRemote = True,
       jobUrl = url, source = src, datePosted = None, salary = None, description = [] \<rparr>"

definition example_record :: "string \<Rightarrow> JobData" where
  \<comment> \<open>a record of the scraper, found on LinkedIn, with the given URL\<close>
  "example_record url =
     \<lparr> r_title = ''Backend Engineer'', r_company = Some ''acme'', r_location = Some ''Remote'',
       r_isRemote = Some True, r_jobUrl = url, r_site = ''linkedin'', r_datePosted = None,
       r_minAmount = None, r_maxAmount = None, r_interval = None, r_currency = None,
       r_description = None \<rparr>"

definition example_greenhouse_job :: "string \<Rightarrow> string \<Rightarrow> GreenhouseJob" where
  "example_greenhouse_job t url =
     \<lparr> j_title = t, j_location_name = Some ''Remote'', j_absolute_url = url,
       j_updated_at = None, j_content = None \<rparr>"

definition example_posting :: "int option \<Rightarrow> LeverPosting" where
  \<comment> \<open>a Lever posting created at the given time\<close>
  "example_posting t =
     \<lparr> p_text = ''Backend Engineer'', p_location = Some ''Remote'', p_team = Some ''Platform'',
       p_hostedUrl = Some ''http://l.co/1'', p_applyUrl = ''http://l.co/1/apply'',
       p_createdAt = t, p_descriptionPlain = None, p_description = None \<rparr>"

definition example_world :: world where
  \<comment> \<open>the scraper finds one job, which the Greenhouse board \<^verbatim>\<open>a\<close> lists too, with a second
      one; the Lever site \<^verbatim>\<open>a\<close> has one posting; no other board or site answers\<close>
  "example_world =
     \<lparr> scrapeJobs = (\<lambda>req. Fulfilled [example_record ''http://g.co/1?s=li'']),
       fetch = (\<lambda>url.
         if url = greenhouse_url ''a'' then
           Json (JobsObject (Some [example_greenhouse_job ''Backend Engineer'' ''http://g.co/1'',
                                   example_greenhouse_job ''Data Engineer'' ''http://g.co/2'']))
         else if url = lever_url ''a'' then
           Json (PostingsArray [example_posting (Some 1705315200000)])
         else NotOk) \<rparr>"

definition failing_world :: world where
  \<comment> \<open>nothing is reachable\<close>
  "failing_world = \<lparr> scrapeJobs = (\<lambda>req. Rejected), fetch = (\<lambda>url. FetchRejected) \<rparr>"

definition example_opts :: SearchOptions where
  \<comment> \<open>no site restriction, a cap of one result, the board \<^verbatim>\<open>a\<close> and the site \<^verbatim>\<open>a\<close>\<close>
  "example_opts =
     \<lparr> opt_site = None, opt_location = None, opt_remote = Some False, opt_results = Some 1,
       opt_jobType = None, opt_hoursOld = None, opt_greenhouseBoards = Some [''a''],
       opt_leverSites = Some [''a''], opt_proxy = None \<rparr>"

definition empty_url_world :: world where
  \<comment> \<open>the scraper finds one job, whose URL is the empty string; no board or site answers\<close>
  "empty_url_world = \<lparr> scrapeJobs = (\<lambda>req. Fulfilled [example_record []]), fetch = (\<lambda>url. NotOk) \<rparr>"

definition late_date_world :: world where
  \<comment> \<open>the Lever site \<^verbatim>\<open>a\<close> has two postings, the first created at a time beyond the range of
      \<^verbatim>\<open>Date\<close>; nothing else answers\<close>
  "late_date_world =
     \<lparr> scrapeJobs = (\<lambda>req. Rejected),
       fetch = (\<lambda>url.
         if url = lever_url ''a'' then
           Json (PostingsArray [example_posting (Some 10000000000000000),
                                example_posting (Some 1705315200000)])
         else NotOk) \<rparr>"



section \<open>Properties\<close>

subsection \<open>Evaluation rules\<close>

lemma char_of_numeral:
  "char_of (numeral k :: nat) =
     Char (odd (numeral k :: nat)) (odd (numeral k div 2 :: nat)) (odd (numeral k div 4 :: nat))
          (odd (numeral k div 8 :: nat)) (odd (numeral k div 16 :: nat)) (odd (numeral k div 32 :: nat))
          (odd (numeral k div 64 :: nat)) (odd (numeral k div 128 :: nat))"
  by (simp add: char_of_def bit_iff_odd)

lemma replicate_numeral: "replicate (numeral k) x = x # replicate (pred_numeral k) x"
  by (simp add: numeral_eq_Suc)

lemmas salary_eval = formatSalary_def truthy_num_def truthy_str_def or_str_def
  toLocaleString_def dec_digits.simps digit_char_def

lemmas key_eval = dedup_key_def toLowerCase_def toLowerCase_char_def char_of_numeral
  strip_trailing_slashes_def is_line_terminator_def example_job_def

lemmas text_eval = toLowerCase_def toLowerCase_char_def char_of_numeral is_space_def
  matches_query_def greenhouse_text_def lever_text_def or_str_def

lemmas date_eval = toISOString_def civil_from_days_def Let_def pad_left_def dec_digits.simps
  digit_char_def replicate_numeral

lemmas spec_eval = spec_relevant_def spec_tokens_def toLowerCase_def toLowerCase_char_def
  char_of_numeral is_space_def

subsection \<open>Lemmas on deduplication\<close>

lemma dedupe_from_append:
  "dedupe_from seen (xs @ ys) = dedupe_from seen xs @ dedupe_from (seen \<union> dedup_key ` set xs) ys"
  by (induction xs arbitrary: seen) (simp_all add: Let_def insert_absorb)

lemma dedupe_from_seen:
  "dedup_key y \<in> seen \<Longrightarrow> dedupe_from seen (y # ys) = dedupe_from seen ys"
  by simp

lemma dedupe_snoc:
  "dedupe (xs @ [y]) = dedupe xs @ (if dedup_key y \<in> dedup_key ` set xs then [] else [y])"
  by (simp add: dedupe_def dedupe_from_append Let_def)

lemma dedupe_from_keys:
  "dedup_key ` set (dedupe_from seen js) = dedup_key ` set js - seen"
  by (induction js arbitrary: seen) (auto simp add: Let_def)

lemma dedupe_from_distinct:
  "distinct (map dedup_key (dedupe_from seen js))"
proof (induction js arbitrary: seen)
  case Nil
  show ?case by simp
next
  case (Cons j js)
  have "dedup_key j \<notin> dedup_key ` set (dedupe_from (insert (dedup_key j) seen) js)"
    by (simp add: dedupe_from_keys)
  with Cons show ?case by (simp add: Let_def)
qed

lemma dedupe_from_subseq: "subseq (dedupe_from seen js) js"
  by (induction js arbitrary: seen) (auto simp add: Let_def intro: list_emb_Cons)

lemma dedupe_from_subset: "set (dedupe_from seen js) \<subseteq> set js"
  by (induction js arbitrary: seen) (auto simp add: Let_def)

lemma dedupe_from_id:
  "distinct (map dedup_key js) \<Longrightarrow> dedup_key ` set js \<inter> seen = {} \<Longrightarrow> dedupe_from seen js = js"
proof (induction js arbitrary: seen)
  case Nil
  show ?case by simp
next
  case (Cons j js)
  from Cons.prems have "dedup_key j \<notin> seen" by auto
  moreover from Cons.prems have "dedup_key ` set js \<inter> insert (dedup_key j) seen = {}" by auto
  moreover from Cons.prems have "distinct (map dedup_key js)" by simp
  ultimately show ?case using Cons.IH by (simp add: Let_def)
qed

lemma dedupe_later_duplicate:
  assumes "dedup_key x = dedup_key y"
  shows "dedupe (a @ x # b @ y # c) = dedupe (a @ x # b @ c)"
proof -
  have "dedupe (a @ x # b @ y # c) = dedupe_from {} ((a @ x # b) @ y # c)"
    by (simp add: dedupe_def)
  also have "\<dots> = dedupe_from {} (a @ x # b) @ dedupe_from (dedup_key ` set (a @ x # b)) (y # c)"
    by (simp only: dedupe_from_append Un_empty_left)
  also have "dedupe_from (dedup_key ` set (a @ x # b)) (y # c) = dedupe_from (dedup_key ` set (a @ x # b)) c"
    using assms by (intro dedupe_from_seen) simp
  also have "dedupe_from {} (a @ x # b) @ dedupe_from (dedup_key ` set (a @ x # b)) c
      = dedupe_from {} ((a @ x # b) @ c)"
    by (simp only: dedupe_from_append Un_empty_left)
  finally show ?thesis by (simp add: dedupe_def)
qed

lemma dedupe_first_occurrences:
  "dedupe js = map ((!) js)
     (filter (\<lambda>i. \<forall>k<i. dedup_key (js ! k) \<noteq> dedup_key (js ! i)) [0..<length js])"
proof (induction js rule: rev_induct)
  case Nil
  show ?case by (simp add: dedupe_def)
next
  case (snoc y xs)
  let ?P = "\<lambda>zs i. \<forall>k<i. dedup_key (zs ! k) \<noteq> dedup_key (zs ! i)"
  have old: "filter (?P (xs @ [y])) [0..<length xs] = filter (?P xs) [0..<length xs]"
    by (rule filter_cong) (auto simp add: nth_append)
  have map_old: "map ((!) (xs @ [y])) (filter (?P xs) [0..<length xs])
      = map ((!) xs) (filter (?P xs) [0..<length xs])"
    by (rule map_cong) (auto simp add: nth_append)
  have last: "?P (xs @ [y]) (length xs) \<longleftrightarrow> dedup_key y \<notin> dedup_key ` set xs"
  proof
    assume p: "?P (xs @ [y]) (length xs)"
    show "dedup_key y \<notin> dedup_key ` set xs"
    proof
      assume "dedup_key y \<in> dedup_key ` set xs"
      then obtain k where "k < length xs" and "dedup_key (xs ! k) = dedup_key y"
        by (auto simp add: in_set_conv_nth)
      with p show False by (auto simp add: nth_append)
    qed
  next
    assume n: "dedup_key y \<notin> dedup_key ` set xs"
    show "?P (xs @ [y]) (length xs)"
    proof (intro allI impI)
      fix k assume "k < length xs"
      then have "xs ! k \<in> set xs" by simp
      with n have "dedup_key (xs ! k) \<noteq> dedup_key y" by (metis imageI)
      with \<open>k < length xs\<close> show "dedup_key ((xs @ [y]) ! k) \<noteq> dedup_key ((xs @ [y]) ! length xs)"
        by (simp add: nth_append)
    qed
  qed
  show ?case
    using snoc.IH old map_old last by (simp add: dedupe_snoc)
qed

lemma dedupe_keys: "dedup_key ` set (dedupe js) = dedup_key ` set js"
  by (simp add: dedupe_def dedupe_from_keys)

lemma dedupe_subset: "set (dedupe js) \<subseteq> set js"
  by (simp add: dedupe_def dedupe_from_subset)

lemma dedupe_length: "length (dedupe js) = card (dedup_key ` set js)"
proof -
  have "card (dedup_key ` set js) = card (set (map dedup_key (dedupe js)))"
    by (simp add: dedupe_def dedupe_from_keys)
  also have "\<dots> = length (map dedup_key (dedupe js))"
    by (rule distinct_card) (simp add: dedupe_def dedupe_from_distinct)
  finally show ?thesis by simp
qed

subsection \<open>Lemmas on the cache, the adapters and the search\<close>

lemma cache_get_unchanged: "snd (cache_get c ns pk ttl now) = c"
  by (simp add: cache_get_def split: option.splits)

lemma cache_get_set:
  "fst (cache_get (cache_set c ns pk v t0) ns pk ttl t1) = (if t1 - t0 \<le> ttl then Some v else None)"
  by (simp add: cache_get_def cache_set_def)

lemma empty_cache_miss: "fst (cache_get [] ns pk ttl now) = None"
  by (simp add: cache_get_def)

lemma search_miss:
  assumes "fst (cache_get c query (JSON_stringify opts) CACHE_TTL_MS t_get) = None"
  shows "search w c query opts t_get t_set =
    (dedupe (concat (map (\<lambda>a. fst (run_adapter w query opts a)) (adapters opts))),
     cache_set c query (JSON_stringify opts)
       (dedupe (concat (map (\<lambda>a. fst (run_adapter w query opts a)) (adapters opts)))) t_set,
     concat (map (\<lambda>a. snd (run_adapter w query opts a)) (adapters opts)))"
proof -
  obtain r c1 where g: "cache_get c query (JSON_stringify opts) CACHE_TTL_MS t_get = (r, c1)"
    by (cases "cache_get c query (JSON_stringify opts) CACHE_TTL_MS t_get")
  with assms have r: "r = None" by simp
  have c1: "c1 = c"
    using g by (auto simp add: cache_get_def split: option.splits if_splits)
  show ?thesis
    by (simp add: search_def g r c1 Let_def comp_def)
qed

lemma search_hit:
  assumes "fst (cache_get c query (JSON_stringify opts) CACHE_TTL_MS t_get) = Some jobs"
  shows "search w c query opts t_get t_set = (jobs, c, [])"
proof -
  obtain r c1 where g: "cache_get c query (JSON_stringify opts) CACHE_TTL_MS t_get = (r, c1)"
    by (cases "cache_get c query (JSON_stringify opts) CACHE_TTL_MS t_get")
  with assms have r: "r = Some jobs" by simp
  have c1: "c1 = c"
    using g by (auto simp add: cache_get_def split: option.splits if_splits)
  show ?thesis
    by (simp add: search_def g r c1)
qed

lemma searchGreenhouse_results:
  "fst (searchGreenhouse w query boards) = concat (map (greenhouse_board w query) boards)"
  by (induction boards) (simp_all add: split_beta)

lemma searchGreenhouse_calls:
  "snd (searchGreenhouse w query boards) = map (\<lambda>board. Fetch (greenhouse_url board)) boards"
  by (induction boards) (simp_all add: split_beta)

lemma searchLever_results:
  "fst (searchLever w query sites) = concat (map (lever_site w query) sites)"
  by (induction sites) (simp_all add: split_beta)

lemma searchLever_calls:
  "snd (searchLever w query sites) = map (\<lambda>site. Fetch (lever_url site)) sites"
  by (induction sites) (simp_all add: split_beta)

lemma run_adapter_results:
  "fst (run_adapter w query opts JobSpy)
     = (case scrapeJobs w (scrape_request query opts) of Rejected \<Rightarrow> [] | Fulfilled rs \<Rightarrow> map jobspy_job rs)"
  "fst (run_adapter w query opts Greenhouse)
     = concat (map (greenhouse_board w query) (the (opt_greenhouseBoards opts)))"
  "fst (run_adapter w query opts Lever)
     = concat (map (lever_site w query) (the (opt_leverSites opts)))"
  by (simp_all add: run_adapter_def searchJobSpy_def Let_def searchGreenhouse_results
      searchLever_results split: settled.splits)

lemma run_adapter_calls:
  "snd (run_adapter w query opts JobSpy) = [Scrape (scrape_request query opts)]"
  "snd (run_adapter w query opts Greenhouse)
     = map (\<lambda>board. Fetch (greenhouse_url board)) (the (opt_greenhouseBoards opts))"
  "snd (run_adapter w query opts Lever)
     = map (\<lambda>site. Fetch (lever_url site)) (the (opt_leverSites opts))"
  by (simp_all add: run_adapter_def searchJobSpy_def Let_def searchGreenhouse_calls
      searchLever_calls split: settled.splits)

lemma adapters_member:
  "JobSpy \<in> set (adapters opts) \<longleftrightarrow>
     opt_site opts = None \<or> opt_site opts = Some [] \<or> opt_site opts = Some ''linkedin''
     \<or> opt_site opts = Some ''indeed''"
  "Greenhouse \<in> set (adapters opts) \<longleftrightarrow> (\<exists>boards. opt_greenhouseBoards opts = Some boards \<and> boards \<noteq> [])"
  "Lever \<in> set (adapters opts) \<longleftrightarrow> (\<exists>sites. opt_leverSites opts = Some sites \<and> sites \<noteq> [])"
  by (auto simp add: adapters_def truthy_str_def split: option.splits)

lemma adapters_order:
  "adapters opts = filter (\<lambda>a. a \<in> set (adapters opts)) [JobSpy, Greenhouse, Lever]"
  by (simp add: adapters_def)


lemma lever_push_member:
  "j \<in> set (lever_push site ps) \<Longrightarrow> \<exists>p \<in> set ps. lever_job site p = Some j"
  by (induction ps) (auto split: option.splits)

lemma jobspy_job_fields:
  "jobUrl (jobspy_job r) = r_jobUrl r"
  "source (jobspy_job r) = (if r_site r = [] then ''jobspy'' else r_site r)"
  by (simp_all add: jobspy_job_def or_str_def)

lemma greenhouse_job_fields:
  "jobUrl (greenhouse_job board g) = j_absolute_url g"
  "source (greenhouse_job board g) = ''greenhouse''"
  by (simp_all add: greenhouse_job_def)

lemma lever_job_fields:
  "lever_job site p = Some j \<Longrightarrow>
     jobUrl j = or_str (p_hostedUrl p) (p_applyUrl p) \<and> source j = ''lever''"
  by (auto simp add: lever_job_def Let_def split: option.splits)

lemma jobspy_member:
  assumes "j \<in> set (fst (run_adapter w query opts JobSpy))"
  shows "\<exists>rs r. scrapeJobs w (scrape_request query opts) = Fulfilled rs \<and> r \<in> set rs \<and> j = jobspy_job r"
  using assms by (auto simp add: run_adapter_results split: settled.splits) metis

lemma greenhouse_member:
  assumes "j \<in> set (fst (run_adapter w query opts Greenhouse))"
  shows "\<exists>board js g. fetch w (greenhouse_url board) = Json (JobsObject (Some js)) \<and> g \<in> set js
           \<and> j = greenhouse_job board g"
proof -
  from assms obtain board where "j \<in> set (greenhouse_board w query board)"
    by (auto simp add: run_adapter_results)
  then show ?thesis
    by (auto simp add: greenhouse_board_def split: response.splits body.splits option.splits) metis
qed

lemma lever_member:
  assumes "j \<in> set (fst (run_adapter w query opts Lever))"
  shows "\<exists>site ps p. fetch w (lever_url site) = Json (PostingsArray ps) \<and> p \<in> set ps
           \<and> lever_job site p = Some j"
proof -
  from assms obtain site where "j \<in> set (lever_site w query site)"
    by (auto simp add: run_adapter_results)
  then show ?thesis
    by (auto simp add: lever_site_def split: response.splits body.splits dest!: lever_push_member) metis
qed

subsection \<open>Lemmas on the relevance filter\<close>

lemma str_includes_sublist: "str_includes s w \<longleftrightarrow> sublist w s"
  by (induction s) (simp_all add: sublist_Cons_right)

lemma split_ws_shape:
  "split_ws s \<noteq> []
   \<and> (hd (split_ws s) = [] \<longleftrightarrow> s = [] \<or> is_space (hd s))
   \<and> ([] \<in> set (tl (split_ws s)) \<longleftrightarrow> s \<noteq> [] \<and> is_space (last s))"
proof (induction s rule: split_ws.induct)
  case 1
  show ?case by simp
next
  case (2 c cs)
  show ?case
  proof (cases "is_space c")
    case True
    show ?thesis
    proof (cases cs)
      case Nil
      with True show ?thesis by simp
    next
      case (Cons d ds)
      show ?thesis
      proof (cases "is_space d")
        case sp: True
        with True Cons "2.IH"(1) [of d ds] show ?thesis by simp
      next
        case nsp: False
        with True Cons "2.IH"(2) [of d ds] show ?thesis
          by (cases "split_ws (d # ds)") auto
      qed
    qed
  next
    case False
    with "2.IH"(3) show ?thesis
      by (cases "split_ws cs") (auto split: if_splits)
  qed
qed

lemma empty_piece:
  "[] \<in> set (split_ws s) \<longleftrightarrow> s = [] \<or> is_space (hd s) \<or> is_space (last s)"
proof -
  have "set (split_ws s) = insert (hd (split_ws s)) (set (tl (split_ws s)))"
    using split_ws_shape [of s] by (cases "split_ws s") auto
  then show ?thesis
    using split_ws_shape [of s] by (cases s) auto
qed

lemma spec_tokens_from_split_ws:
  "spec_tokens_from tok s =
     (if tok @ hd (split_ws s) = [] then [] else [tok @ hd (split_ws s)])
     @ filter (\<lambda>t. t \<noteq> []) (tl (split_ws s))"
proof (induction s arbitrary: tok)
  case Nil
  show ?case by simp
next
  case (Cons c cs)
  show ?case
  proof (cases "is_space c")
    case True
    show ?thesis
    proof (cases cs)
      case Nil
      with True show ?thesis by simp
    next
      case cs: (Cons d ds)
      show ?thesis
      proof (cases "is_space d")
        case sp: True
        have "hd (split_ws cs) = []"
          using split_ws_shape [of cs] cs sp by simp
        with True cs sp Cons.IH [of "[]"] show ?thesis by simp
      next
        case nsp: False
        have "split_ws cs \<noteq> []" using split_ws_shape [of cs] by simp
        then have "filter (\<lambda>t. t \<noteq> []) (split_ws cs)
            = (if hd (split_ws cs) = [] then [] else [hd (split_ws cs)])
              @ filter (\<lambda>t. t \<noteq> []) (tl (split_ws cs))"
          by (cases "split_ws cs") auto
        with True cs nsp Cons.IH [of "[]"] show ?thesis by simp
      qed
    qed
  next
    case False
    have "split_ws cs \<noteq> []" using split_ws_shape [of cs] by simp
    with False Cons.IH [of "tok @ [c]"] show ?thesis
      by (cases "split_ws cs") auto
  qed
qed

lemma spec_tokens_split_ws: "spec_tokens s = filter (\<lambda>t. t \<noteq> []) (split_ws s)"
proof -
  have "split_ws s \<noteq> []" using split_ws_shape [of s] by simp
  then show ?thesis
    by (cases "split_ws s") (auto simp add: spec_tokens_def spec_tokens_from_split_ws)
qed

lemma toLowerCase_char_space: "is_space (toLowerCase_char c) = is_space c"
  by (auto simp add: toLowerCase_char_def is_space_def Let_def)

lemma toLowerCase_edges:
  "toLowerCase s = [] \<longleftrightarrow> s = []"
  "s \<noteq> [] \<Longrightarrow> is_space (hd (toLowerCase s)) = is_space (hd s)"
  "s \<noteq> [] \<Longrightarrow> is_space (last (toLowerCase s)) = is_space (last s)"
  by (simp_all add: toLowerCase_def hd_map last_map toLowerCase_char_space)

lemma matches_query_spec:
  "matches_query query (toLowerCase text) \<longleftrightarrow>
     spec_relevant query text \<or> query = [] \<or> is_space (hd query) \<or> is_space (last query)"
proof -
  let ?pieces = "split_ws (toLowerCase query)"
  have "matches_query query (toLowerCase text)
      \<longleftrightarrow> (\<exists>w \<in> set ?pieces. str_includes (toLowerCase text) w)"
    by (simp add: matches_query_def list_ex_iff)
  also have "\<dots> \<longleftrightarrow> (\<exists>w \<in> set (filter (\<lambda>t. t \<noteq> []) ?pieces). str_includes (toLowerCase text) w)
      \<or> [] \<in> set ?pieces"
    by (auto simp add: str_includes_sublist)
  also have "\<dots> \<longleftrightarrow> spec_relevant query text \<or> [] \<in> set ?pieces"
    by (simp add: spec_relevant_def list_ex_iff spec_tokens_split_ws)
  also have "[] \<in> set ?pieces \<longleftrightarrow> query = [] \<or> is_space (hd query) \<or> is_space (last query)"
    by (cases "query = []") (auto simp add: empty_piece toLowerCase_edges)
  finally show ?thesis .
qed

lemma toISOString_None: "toISOString t = None \<longleftrightarrow> \<bar>t\<bar> > 8640000000000000"
  by (simp add: toISOString_def Let_def split_beta)

lemma lever_job_None:
  "lever_job site p = None \<longleftrightarrow> (\<exists>t. p_createdAt p = Some t \<and> \<bar>t\<bar> > 8640000000000000)"
proof (cases "p_createdAt p")
  case None
  then show ?thesis
    by (simp add: lever_job_def lever_datePosted_def truthy_num_def Let_def)
next
  case (Some t)
  then show ?thesis
    using toISOString_None [of t]
    by (cases "toISOString t") (auto simp add: lever_job_def lever_datePosted_def truthy_num_def Let_def)
qed

lemma lever_push_all:
  "\<forall>p \<in> set ps. lever_job site p \<noteq> None \<Longrightarrow>
   lever_push site ps = map (\<lambda>p. the (lever_job site p)) ps"
  by (induction ps) auto

lemma or_str_empty: "or_str s [] = (case s of None \<Rightarrow> [] | Some t \<Rightarrow> t)"
  by (simp add: or_str_def split: option.splits)

subsection \<open>Lemmas on the search on payloads as they arrive\<close>


lemma with_url_any_job: "with_url (any_job j) (jobUrl j) = j"
  by (simp add: with_url_def any_job_def)


lemma any_job_url: "a_jobUrl (any_job j) = Some (jobUrl j)"
  by (simp add: any_job_def)



lemma dedupe_any_from_typed: "dedupe_any_from seen (map any_job js) = Inr (dedupe_from seen js)"
proof (induction js arbitrary: seen)
  case Nil
  show ?case by simp
next
  case (Cons j js)
  have key: "toLowerCase (strip_trailing_slashes (strip_query (jobUrl j))) = dedup_key j"
    by (simp add: dedup_key_def)
  show ?case
    by (simp add: any_job_url key Cons.IH with_url_any_job Let_def)
qed




lemma promise_all_fulfilled: "promise_all (map Inr xs) = Inr xs"
  by (induction xs) simp_all


lemma searchGreenhouse_any_results:
  "fst (searchGreenhouse_any w query boards) = concat (map (greenhouse_board_any w query) boards)"
  by (induction boards) (simp_all add: split_beta)

lemma searchGreenhouse_any_calls:
  "snd (searchGreenhouse_any w query boards) = map (\<lambda>board. Fetch (greenhouse_url board)) boards"
  by (induction boards) (simp_all add: split_beta)

lemma searchLever_any_results:
  "fst (searchLever_any w query sites) = concat (map (lever_site_any w query) sites)"
  by (induction sites) (simp_all add: split_beta)

lemma searchLever_any_calls:
  "snd (searchLever_any w query sites) = map (\<lambda>site. Fetch (lever_url site)) sites"
  by (induction sites) (simp_all add: split_beta)

lemma adapter_results_any_eqs:
  "adapter_results_any w query opts JobSpy
     = (case scrapeJobs_any w (scrape_request query opts) of
          RejectedWith e \<Rightarrow> [] | FulfilledWith rs \<Rightarrow> map jobspy_job_any rs)"
  "adapter_results_any w query opts Greenhouse
     = concat (map (greenhouse_board_any w query) (the (opt_greenhouseBoards opts)))"
  "adapter_results_any w query opts Lever
     = concat (map (lever_site_any w query) (the (opt_leverSites opts)))"
  by (simp_all add: adapter_results_any_def run_adapter_any_def searchJobSpy_any_def Let_def
      split_beta searchGreenhouse_any_results searchLever_any_results
      split: promise.splits reason.splits)

lemma run_adapter_any_calls:
  "snd (run_adapter_any w query opts JobSpy) = [Scrape (scrape_request query opts)]"
  "snd (run_adapter_any w query opts Greenhouse)
     = map (\<lambda>board. Fetch (greenhouse_url board)) (the (opt_greenhouseBoards opts))"
  "snd (run_adapter_any w query opts Lever)
     = map (\<lambda>site. Fetch (lever_url site)) (the (opt_leverSites opts))"
  by (simp_all add: run_adapter_any_def searchJobSpy_any_def Let_def split_beta
      searchGreenhouse_any_calls searchLever_any_calls split: promise.splits reason.splits)

lemma run_adapter_any_settles:
  "fst (run_adapter_any w query opts a)
     = (if a = JobSpy \<and> scrapeJobs_any w (scrape_request query opts) = RejectedWith Nullish
        then Inl TypeError else Inr (adapter_results_any w query opts a))"
  by (cases a)
    (simp_all add: adapter_results_any_def run_adapter_any_def searchJobSpy_any_def Let_def
      split_beta split: promise.splits reason.splits)

lemma search_any_miss:
  assumes "fst (cache_get c query (JSON_stringify opts) CACHE_TTL_MS t_get) = None"
  shows "search_any w c query opts t_get t_set =
    (case promise_all (map (\<lambda>a. fst (run_adapter_any w query opts a)) (adapters opts)) of
       Inl e \<Rightarrow> Inl e
     | Inr values \<Rightarrow>
         (case dedupe_any (concat values) of
            Inl e \<Rightarrow> Inl e
          | Inr deduped \<Rightarrow>
              Inr (deduped, cache_set c query (JSON_stringify opts) deduped t_set,
                   concat (map (\<lambda>a. snd (run_adapter_any w query opts a)) (adapters opts)))))"
proof -
  obtain r c1 where g: "cache_get c query (JSON_stringify opts) CACHE_TTL_MS t_get = (r, c1)"
    by (cases "cache_get c query (JSON_stringify opts) CACHE_TTL_MS t_get")
  with assms have r: "r = None" by simp
  have c1: "c1 = c"
    using cache_get_unchanged [of c query "JSON_stringify opts" CACHE_TTL_MS t_get] g by simp
  show ?thesis
    by (simp add: search_any_def g r c1 Let_def comp_def split: sum.splits)
qed

lemma search_any_hit:
  assumes "fst (cache_get c query (JSON_stringify opts) CACHE_TTL_MS t_get) = Some jobs"
  shows "search_any w c query opts t_get t_set = Inr (jobs, c, [])"
proof -
  obtain r c1 where g: "cache_get c query (JSON_stringify opts) CACHE_TTL_MS t_get = (r, c1)"
    by (cases "cache_get c query (JSON_stringify opts) CACHE_TTL_MS t_get")
  with assms have r: "r = Some jobs" by simp
  have c1: "c1 = c"
    using cache_get_unchanged [of c query "JSON_stringify opts" CACHE_TTL_MS t_get] g by simp
  show ?thesis
    by (simp add: search_any_def g r c1)
qed

text \<open>
  On payloads of their declared types the functions on payloads as they arrive are the
  typed ones; \<^verbatim>\<open>search\<close> then returns, with the result of the typed search.
\<close>

lemma jobspy_job_any_typed: "jobspy_job_any (any_record r) = any_job (jobspy_job r)"
  by (simp add: jobspy_job_any_def any_record_def any_job_def jobspy_job_def)

lemma greenhouse_text_any_typed: "greenhouse_text_any (any_greenhouse_job j) = greenhouse_text j"
  by (simp add: greenhouse_text_any_def any_greenhouse_job_def greenhouse_text_def)

lemma greenhouse_job_any_typed:
  "greenhouse_job_any board (any_greenhouse_job j) = any_job (greenhouse_job board j)"
  by (simp add: greenhouse_job_any_def any_greenhouse_job_def any_job_def greenhouse_job_def)

lemma greenhouse_board_any_typed:
  "greenhouse_board_any (any_world w) query board = map any_job (greenhouse_board w query board)"
  by (simp add: greenhouse_board_any_def greenhouse_board_def any_world_def any_response_def
      filter_map comp_def greenhouse_text_any_typed greenhouse_job_any_typed
      split: response.splits body.splits option.splits)

lemma lever_text_any_typed: "lever_text_any (any_posting p) = lever_text p"
  by (simp add: lever_text_any_def any_posting_def lever_text_def)

lemma lever_job_any_typed:
  "lever_job_any site (any_posting p) = map_option any_job (lever_job site p)"
  by (simp add: lever_job_any_def any_posting_def any_job_def lever_job_def Let_def
      truthy_str_def or_str_def split: option.splits)

lemma lever_push_any_typed:
  "lever_push_any site (map any_posting ps) = map any_job (lever_push site ps)"
  by (induction ps) (simp_all add: lever_job_any_typed split: option.splits)

lemma lever_site_any_typed:
  "lever_site_any (any_world w) query site = map any_job (lever_site w query site)"
  by (simp add: lever_site_any_def lever_site_def any_world_def any_response_def
      filter_map comp_def lever_text_any_typed lever_push_any_typed
      split: response.splits body.splits option.splits)

lemma adapter_results_any_typed:
  "adapter_results_any (any_world w) query opts a = map any_job (fst (run_adapter w query opts a))"
proof (cases a)
  case JobSpy
  then show ?thesis
    by (simp add: adapter_results_any_eqs run_adapter_results any_world_def jobspy_job_any_typed
        split: settled.splits)
next
  case Greenhouse
  have "greenhouse_board_any (any_world w) query = (\<lambda>board. map any_job (greenhouse_board w query board))"
    by (rule ext) (rule greenhouse_board_any_typed)
  with Greenhouse show ?thesis
    by (simp add: adapter_results_any_eqs run_adapter_results map_concat comp_def)
next
  case Lever
  have "lever_site_any (any_world w) query = (\<lambda>site. map any_job (lever_site w query site))"
    by (rule ext) (rule lever_site_any_typed)
  with Lever show ?thesis
    by (simp add: adapter_results_any_eqs run_adapter_results map_concat comp_def)
qed

lemma run_adapter_any_typed:
  "fst (run_adapter_any (any_world w) query opts a) = Inr (map any_job (fst (run_adapter w query opts a)))"
  "snd (run_adapter_any (any_world w) query opts a) = snd (run_adapter w query opts a)"
proof -
  have "scrapeJobs_any (any_world w) (scrape_request query opts) \<noteq> RejectedWith Nullish"
    by (simp add: any_world_def split: settled.splits)
  then show "fst (run_adapter_any (any_world w) query opts a)
      = Inr (map any_job (fst (run_adapter w query opts a)))"
    by (simp add: run_adapter_any_settles adapter_results_any_typed)
  show "snd (run_adapter_any (any_world w) query opts a) = snd (run_adapter w query opts a)"
    by (cases a) (simp_all add: run_adapter_any_calls run_adapter_calls)
qed

lemma search_any_typed:
  "search_any (any_world w) c query opts t_get t_set = Inr (search w c query opts t_get t_set)"
proof (cases "fst (cache_get c query (JSON_stringify opts) CACHE_TTL_MS t_get)")
  case (Some jobs)
  then show ?thesis by (simp add: search_any_hit search_hit)
next
  case None
  let ?typed = "map (\<lambda>a. fst (run_adapter w query opts a)) (adapters opts)"
  have "map (\<lambda>a. fst (run_adapter_any (any_world w) query opts a)) (adapters opts)
      = map Inr (map (map any_job) ?typed)"
    by (simp add: run_adapter_any_typed comp_def)
  then have settled: "promise_all (map (\<lambda>a. fst (run_adapter_any (any_world w) query opts a)) (adapters opts))
      = Inr (map (map any_job) ?typed)"
    by (simp only: promise_all_fulfilled)
  have "concat (map (map any_job) ?typed) = map any_job (concat ?typed)"
    by (simp add: map_concat)
  then have kept: "dedupe_any (concat (map (map any_job) ?typed)) = Inr (dedupe (concat ?typed))"
    by (simp only: dedupe_any_def dedupe_def dedupe_any_from_typed)
  have "search_any (any_world w) c query opts t_get t_set
      = Inr (dedupe (concat ?typed),
             cache_set c query (JSON_stringify opts) (dedupe (concat ?typed)) t_set,
             concat (map (\<lambda>a. snd (run_adapter_any (any_world w) query opts a)) (adapters opts)))"
    by (simp only: search_any_miss [OF None] settled kept sum.case)
  then show ?thesis
    by (simp add: search_miss [OF None] run_adapter_any_typed(2))
qed







subsection \<open>The examples, evaluated\<close>

lemma example_adapters: "adapters example_opts = [JobSpy, Greenhouse, Lever]"
  by (simp add: adapters_def example_opts_def truthy_str_def)

lemma example_jobspy:
  "fst (run_adapter example_world query example_opts JobSpy) = [example_job ''linkedin'' ''http://g.co/1?s=li'']"
  by (simp add: run_adapter_results example_world_def example_record_def jobspy_job_def
      example_job_def or_str_def or_null_def truthy_str_def formatSalary_def truthy_num_def)

lemma example_greenhouse:
  "fst (run_adapter example_world ''engineer'' example_opts Greenhouse)
     = [(example_job ''greenhouse'' ''http://g.co/1'') \<lparr> company := ''a'' \<rparr>,
        (example_job ''greenhouse'' ''http://g.co/2'') \<lparr> title := ''Data Engineer'', company := ''a'' \<rparr>]"
  by (simp add: run_adapter_results example_opts_def example_world_def greenhouse_board_def
      example_greenhouse_job_def greenhouse_job_def example_job_def test_remote_def or_null_def
      truthy_str_def text_eval)

lemma example_date: "lever_datePosted (Some 1705315200000) = Some (Some ''2024-01-15T10:40:00.000Z'')"
  by (simp add: lever_datePosted_def truthy_num_def date_eval cong: let_weak_cong)

lemma example_lever:
  "fst (run_adapter example_world ''engineer'' example_opts Lever)
     = [(example_job ''lever'' ''http://l.co/1'')
          \<lparr> company := ''a'', datePosted := Some ''2024-01-15T10:40:00.000Z'' \<rparr>]"
  by (simp add: run_adapter_results example_opts_def example_world_def lever_site_def
      greenhouse_url_def lever_url_def
      example_posting_def lever_job_def example_date
      example_job_def test_remote_def text_eval)

lemma example_results:
  "fst (search example_world [] ''engineer'' example_opts t_get t_set)
     = [example_job ''linkedin'' ''http://g.co/1?s=li'',
        (example_job ''greenhouse'' ''http://g.co/2'') \<lparr> title := ''Data Engineer'', company := ''a'' \<rparr>,
        (example_job ''lever'' ''http://l.co/1'')
          \<lparr> company := ''a'', datePosted := Some ''2024-01-15T10:40:00.000Z'' \<rparr>]"
  by (simp add: search_miss empty_cache_miss example_adapters example_jobspy example_greenhouse
      example_lever dedupe_def key_eval)

lemma example_calls:
  "snd (snd (search example_world [] ''engineer'' example_opts t_get t_set))
     = [Scrape (scrape_request ''engineer'' example_opts), Fetch (greenhouse_url ''a''),
        Fetch (lever_url ''a'')]"
proof -
  have "the (opt_greenhouseBoards example_opts) = [''a'']" "the (opt_leverSites example_opts) = [''a'']"
    by (simp_all add: example_opts_def)
  then show ?thesis
    by (simp add: search_miss empty_cache_miss example_adapters run_adapter_calls)
qed

lemma empty_url_results:
  "fst (search empty_url_world [] ''engineer'' example_opts 0 5) = [example_job ''linkedin'' []]"
proof -
  have "fst (run_adapter empty_url_world ''engineer'' example_opts JobSpy) = [example_job ''linkedin'' []]"
    by (simp add: run_adapter_results empty_url_world_def example_record_def jobspy_job_def
        example_job_def or_str_def or_null_def truthy_str_def formatSalary_def truthy_num_def)
  moreover have "fst (run_adapter empty_url_world ''engineer'' example_opts Greenhouse) = []"
    by (simp add: run_adapter_results empty_url_world_def example_opts_def greenhouse_board_def)
  moreover have "fst (run_adapter empty_url_world ''engineer'' example_opts Lever) = []"
    by (simp add: run_adapter_results empty_url_world_def example_opts_def lever_site_def)
  ultimately show ?thesis
    by (simp add: search_miss empty_cache_miss example_adapters dedupe_def)
qed

lemma example_fetch:
  "fetch example_world (greenhouse_url ''a'')
     = Json (JobsObject (Some [example_greenhouse_job ''Backend Engineer'' ''http://g.co/1'',
                               example_greenhouse_job ''Data Engineer'' ''http://g.co/2'']))"
  "fetch example_world (lever_url ''a'') = Json (PostingsArray [example_posting (Some 1705315200000)])"
  "fetch late_date_world (lever_url ''a'')
     = Json (PostingsArray [example_posting (Some 10000000000000000),
                            example_posting (Some 1705315200000)])"
  by (simp_all add: example_world_def late_date_world_def greenhouse_url_def lever_url_def)



section \<open>The claims\<close>

subsection \<open>A second search within the time to live (C1)\<close>

text \<open>
  Claim C1. When a call of \<^verbatim>\<open>search(query, options)\<close> has stored its result, a second call
  with the same query and the same serialised options, no later than 30 minutes after
  the result was stored, returns the stored list, leaves the cache as it is, and asks
  nothing of the scraper or of HTTP, whatever the outside world would answer.
\<close>

theorem search_cached_within_ttl:
  assumes first: "search w c query opts t_get t_set = (jobs, c', calls)"
    and stored: "fst (cache_get c query (JSON_stringify opts) CACHE_TTL_MS t_get) = None"
    and same: "JSON_stringify opts' = JSON_stringify opts"
    and within: "t_get' - t_set \<le> CACHE_TTL_MS"
  shows "search w' c' query opts' t_get' t_set' = (jobs, c', [])"
proof -
  from first search_miss [OF stored, of w t_set]
  have c': "c' = cache_set c query (JSON_stringify opts) jobs t_set"
    by auto
  have "fst (cache_get c' query (JSON_stringify opts') CACHE_TTL_MS t_get') = Some jobs"
    using within by (simp add: c' same cache_get_set)
  then show ?thesis by (rule search_hit)
qed

theorem search_cached_within_ttl_witness:
  "search failing_world (fst (snd (search example_world [] ''engineer'' example_opts 0 5)))
       ''engineer'' example_opts 1800005 1800009
     = (fst (search example_world [] ''engineer'' example_opts 0 5),
        fst (snd (search example_world [] ''engineer'' example_opts 0 5)), [])
   \<and> length (fst (search example_world [] ''engineer'' example_opts 0 5)) = 3
   \<and> length (snd (snd (search example_world [] ''engineer'' example_opts 0 5))) = 3"
proof -
  have first: "search example_world [] ''engineer'' example_opts 0 5
      = (fst (search example_world [] ''engineer'' example_opts 0 5),
         fst (snd (search example_world [] ''engineer'' example_opts 0 5)),
         snd (snd (search example_world [] ''engineer'' example_opts 0 5)))"
    by simp
  have within: "(1800005::int) - 5 \<le> CACHE_TTL_MS"
    by (simp add: CACHE_TTL_MS_def)
  have "search failing_world (fst (snd (search example_world [] ''engineer'' example_opts 0 5)))
       ''engineer'' example_opts 1800005 1800009
     = (fst (search example_world [] ''engineer'' example_opts 0 5),
        fst (snd (search example_world [] ''engineer'' example_opts 0 5)), [])"
    using first empty_cache_miss refl within by (rule search_cached_within_ttl)
  then show ?thesis
    by (simp add: example_results example_calls)
qed

subsection \<open>Deduplication (C2)\<close>

text \<open>
  Claim C2. The dedup key of a job is its URL without the query string, without trailing
  slashes, in lower case. Of the entries of a list that have the same key, \<^verbatim>\<open>dedupe\<close> keeps
  the first and drops every later one; the entries kept are exactly those that no earlier
  entry shares its key with, in their original order, so a list of distinct keys is
  returned as it is. \<^verbatim>\<open>search\<close> applies \<^verbatim>\<open>dedupe\<close> to the concatenation of the adapters'
  lists, in the order of the adapters.
\<close>

theorem dedupe_first_wins:
  "(dedup_key x = dedup_key y \<longrightarrow> dedupe (a @ x # b @ y # c) = dedupe (a @ x # b @ c))
   \<and> (dedup_key x \<notin> dedup_key ` set a \<longrightarrow> prefix (dedupe a @ [x]) (dedupe (a @ x # b)))
   \<and> dedupe js = map ((!) js)
        (filter (\<lambda>i. \<forall>k<i. dedup_key (js ! k) \<noteq> dedup_key (js ! i)) [0..<length js])
   \<and> distinct (map dedup_key (dedupe js))
   \<and> dedup_key ` set (dedupe js) = dedup_key ` set js
   \<and> subseq (dedupe js) js
   \<and> (distinct (map dedup_key js) \<longrightarrow> dedupe js = js)
   \<and> (fst (cache_get ca query (JSON_stringify opts) CACHE_TTL_MS t_get) = None \<longrightarrow>
        fst (search w ca query opts t_get t_set)
          = dedupe (concat (map (\<lambda>a. fst (run_adapter w query opts a)) (adapters opts))))"
proof -
  have first: "dedup_key x \<notin> dedup_key ` set a \<Longrightarrow> prefix (dedupe a @ [x]) (dedupe (a @ x # b))"
  proof -
    assume "dedup_key x \<notin> dedup_key ` set a"
    then have "dedupe ((a @ [x]) @ b) = (dedupe a @ [x]) @ dedupe_from (dedup_key ` set (a @ [x])) b"
      unfolding dedupe_def dedupe_from_append[of _ "a @ [x]" b] by (simp add: dedupe_from_append)
    then show ?thesis by (metis append.assoc append_Cons append_Nil prefixI)
  qed
  show ?thesis
    using first dedupe_later_duplicate [of x y a b c] dedupe_first_occurrences [of js]
      dedupe_from_distinct [of "{}" js] dedupe_from_keys [of "{}" js] dedupe_from_subseq [of "{}" js]
      dedupe_from_id [of js "{}"] search_miss [of ca query opts t_get w t_set]
    by (simp add: dedupe_def)
qed

theorem dedupe_first_wins_witness:
  "dedup_key (example_job ''lever'' ''http://x.co/Job/1?ref=a'') = ''http://x.co/job/1''
   \<and> dedup_key (example_job ''linkedin'' ''http://x.co/job/1//'') = ''http://x.co/job/1''
   \<and> dedupe [example_job ''lever'' ''http://x.co/Job/1?ref=a'',
              example_job ''linkedin'' ''http://x.co/job/2'',
              example_job ''linkedin'' ''http://x.co/job/1//'']
       = [example_job ''lever'' ''http://x.co/Job/1?ref=a'',
          example_job ''linkedin'' ''http://x.co/job/2'']"
proof -
  have k1: "dedup_key (example_job ''lever'' ''http://x.co/Job/1?ref=a'') = ''http://x.co/job/1''"
    by (simp add: key_eval)
  have k2: "dedup_key (example_job ''linkedin'' ''http://x.co/job/2'') = ''http://x.co/job/2''"
    by (simp add: key_eval)
  have k3: "dedup_key (example_job ''linkedin'' ''http://x.co/job/1//'') = ''http://x.co/job/1''"
    by (simp add: key_eval)
  have "dedupe [example_job ''lever'' ''http://x.co/Job/1?ref=a'',
                example_job ''linkedin'' ''http://x.co/job/2'',
                example_job ''linkedin'' ''http://x.co/job/1//'']
        = dedupe [example_job ''lever'' ''http://x.co/Job/1?ref=a'',
                  example_job ''linkedin'' ''http://x.co/job/2'']"
    using dedupe_first_wins [of "example_job ''lever'' ''http://x.co/Job/1?ref=a''"
        "example_job ''linkedin'' ''http://x.co/job/1//''"
        "[]" "[example_job ''linkedin'' ''http://x.co/job/2'']" "[]", THEN conjunct1] k1 k3
    by simp
  moreover have "dedupe [example_job ''lever'' ''http://x.co/Job/1?ref=a'',
                         example_job ''linkedin'' ''http://x.co/job/2'']
        = [example_job ''lever'' ''http://x.co/Job/1?ref=a'',
           example_job ''linkedin'' ''http://x.co/job/2'']"
    by (simp add: dedupe_def k1 k2)
  ultimately show ?thesis using k1 k3 by simp
qed

subsection \<open>Failing adapters (C3)\<close>




subsection \<open>The relevance filter (C4)\<close>

text \<open>
  Claim C4, as amended. Let the query be non-empty and neither begin nor end with white
  space. For the Greenhouse adapter a fetched posting is included iff at least one token of
  the lower-cased query (a maximal run of characters that are not white space) is a
  substring of the lower-cased \<^verbatim>\<open>title + " " + location\<close>. For the Lever adapter the same
  holds over \<^verbatim>\<open>text + " " + location + " " + team\<close>, when every \<^verbatim>\<open>createdAt\<close> of the
  site's postings is absent or a valid time value (at most 8.64e15 milliseconds from the
  epoch). A posting with the title "Backend Engineer" and the location "Remote" is
  relevant for the query "engineer remote" and not for "nurse".
\<close>

theorem relevance_filter:
  assumes "query \<noteq> []" and "\<not> is_space (hd query)" and "\<not> is_space (last query)"
  shows "(fetch w (greenhouse_url board) = Json (JobsObject (Some js)) \<longrightarrow>
      greenhouse_board w query board
        = map (greenhouse_job board)
            (filter (\<lambda>j. spec_relevant query
                            (j_title j @ '' '' @ (case j_location_name j of None \<Rightarrow> [] | Some n \<Rightarrow> n)))
               js))
   \<and> (fetch w (lever_url site) = Json (PostingsArray ps)
        \<and> (\<forall>p \<in> set ps. \<forall>t. p_createdAt p = Some t \<longrightarrow> \<bar>t\<bar> \<le> 8640000000000000) \<longrightarrow>
      lever_site w query site
        = map (\<lambda>p. the (lever_job site p))
            (filter (\<lambda>p. spec_relevant query
                            (p_text p @ '' '' @ (case p_location p of None \<Rightarrow> [] | Some n \<Rightarrow> n)
                               @ '' '' @ (case p_team p of None \<Rightarrow> [] | Some n \<Rightarrow> n)))
               ps))
   \<and> (spec_relevant query s \<longleftrightarrow>
        (\<exists>token \<in> set (spec_tokens (toLowerCase query)). sublist token (toLowerCase s)))
   \<and> spec_relevant ''engineer remote'' (''Backend Engineer'' @ '' '' @ ''Remote'')
   \<and> \<not> spec_relevant ''nurse'' (''Backend Engineer'' @ '' '' @ ''Remote'')"
proof -
  have m: "matches_query query (toLowerCase t) \<longleftrightarrow> spec_relevant query t" for t
    using assms by (simp add: matches_query_spec)
  have g: "fetch w (greenhouse_url board) = Json (JobsObject (Some js)) \<Longrightarrow>
      greenhouse_board w query board
        = map (greenhouse_job board)
            (filter (\<lambda>j. spec_relevant query
                            (j_title j @ '' '' @ (case j_location_name j of None \<Rightarrow> [] | Some n \<Rightarrow> n)))
               js)"
    by (simp add: greenhouse_board_def greenhouse_text_def m or_str_empty)
  have l: "lever_site w query site
        = map (\<lambda>p. the (lever_job site p))
            (filter (\<lambda>p. spec_relevant query
                            (p_text p @ '' '' @ (case p_location p of None \<Rightarrow> [] | Some n \<Rightarrow> n)
                               @ '' '' @ (case p_team p of None \<Rightarrow> [] | Some n \<Rightarrow> n)))
               ps)"
    if f: "fetch w (lever_url site) = Json (PostingsArray ps)"
      and v: "\<forall>p \<in> set ps. \<forall>t. p_createdAt p = Some t \<longrightarrow> \<bar>t\<bar> \<le> 8640000000000000"
  proof -
    have "lever_job site p \<noteq> None" if "p \<in> set ps" for p
    proof
      assume "lever_job site p = None"
      then obtain t where "p_createdAt p = Some t" and "\<bar>t\<bar> > 8640000000000000"
        by (auto simp add: lever_job_None)
      with v that show False by fastforce
    qed
    then have "\<forall>p \<in> set (filter (\<lambda>p. matches_query query (lever_text p)) ps). lever_job site p \<noteq> None"
      by simp
    then have "lever_site w query site
        = map (\<lambda>p. the (lever_job site p)) (filter (\<lambda>p. matches_query query (lever_text p)) ps)"
      by (simp add: lever_site_def f lever_push_all)
    then show ?thesis
      by (simp add: lever_text_def m or_str_empty)
  qed
  have s: "spec_relevant query s \<longleftrightarrow>
        (\<exists>token \<in> set (spec_tokens (toLowerCase query)). sublist token (toLowerCase s))"
    by (simp add: spec_relevant_def list_ex_iff str_includes_sublist)
  have e1: "spec_relevant ''engineer remote'' (''Backend Engineer'' @ '' '' @ ''Remote'')"
    by (simp add: spec_eval)
  have e2: "\<not> spec_relevant ''nurse'' (''Backend Engineer'' @ '' '' @ ''Remote'')"
    by (simp add: spec_eval)
  from g l s e1 e2 show ?thesis by blast
qed

theorem relevance_filter_witness:
  "greenhouse_board example_world ''engineer remote'' ''a''
     = [greenhouse_job ''a'' (example_greenhouse_job ''Backend Engineer'' ''http://g.co/1''),
        greenhouse_job ''a'' (example_greenhouse_job ''Data Engineer'' ''http://g.co/2'')]
   \<and> greenhouse_board example_world ''nurse'' ''a'' = []
   \<and> lever_site example_world ''platform'' ''a''
     = [the (lever_job ''a'' (example_posting (Some 1705315200000)))]
   \<and> lever_site example_world ''nurse'' ''a'' = []"
proof -
  have r1: "spec_relevant ''engineer remote'' (''Backend Engineer'' @ '' '' @ ''Remote'')"
    and r2: "spec_relevant ''engineer remote'' (''Data Engineer'' @ '' '' @ ''Remote'')"
    and r3: "\<not> spec_relevant ''nurse'' (''Backend Engineer'' @ '' '' @ ''Remote'')"
    and r4: "\<not> spec_relevant ''nurse'' (''Data Engineer'' @ '' '' @ ''Remote'')"
    and r5: "spec_relevant ''platform'' (''Backend Engineer'' @ '' '' @ ''Remote'' @ '' '' @ ''Platform'')"
    and r6: "\<not> spec_relevant ''nurse'' (''Backend Engineer'' @ '' '' @ ''Remote'' @ '' '' @ ''Platform'')"
    by (simp_all add: spec_eval)
  have q1: "''engineer remote'' \<noteq> []" "\<not> is_space (hd ''engineer remote'')"
      "\<not> is_space (last ''engineer remote'')"
    and q2: "''nurse'' \<noteq> []" "\<not> is_space (hd ''nurse'')" "\<not> is_space (last ''nurse'')"
    and q3: "''platform'' \<noteq> []" "\<not> is_space (hd ''platform'')" "\<not> is_space (last ''platform'')"
    by (simp_all add: is_space_def)
  have valid: "\<forall>p \<in> set [example_posting (Some 1705315200000)].
      \<forall>t. p_createdAt p = Some t \<longrightarrow> \<bar>t\<bar> \<le> 8640000000000000"
    by (simp add: example_posting_def)
  note g1 = relevance_filter [OF q1, where w = example_world and board = "''a''", THEN conjunct1,
      rule_format, OF example_fetch(1)]
  note g2 = relevance_filter [OF q2, where w = example_world and board = "''a''", THEN conjunct1,
      rule_format, OF example_fetch(1)]
  note l2 = relevance_filter [OF q2, where w = example_world and site = "''a''", THEN conjunct2,
      THEN conjunct1, rule_format, OF conjI, OF example_fetch(2) valid]
  note l3 = relevance_filter [OF q3, where w = example_world and site = "''a''", THEN conjunct2,
      THEN conjunct1, rule_format, OF conjI, OF example_fetch(2) valid]
  have "greenhouse_board example_world ''engineer remote'' ''a''
     = [greenhouse_job ''a'' (example_greenhouse_job ''Backend Engineer'' ''http://g.co/1''),
        greenhouse_job ''a'' (example_greenhouse_job ''Data Engineer'' ''http://g.co/2'')]"
    using r1 r2 by (simp add: g1 example_greenhouse_job_def)
  moreover have "greenhouse_board example_world ''nurse'' ''a'' = []"
    using r3 r4 by (simp add: g2 example_greenhouse_job_def)
  moreover have "lever_site example_world ''platform'' ''a''
     = [the (lever_job ''a'' (example_posting (Some 1705315200000)))]"
    using r5 by (simp add: l3 example_posting_def)
  moreover have "lever_site example_world ''nurse'' ''a'' = []"
    using r6 by (simp add: l2 example_posting_def)
  ultimately show ?thesis by blast
qed

text \<open>
  The claim as the specification words it fails in two places. The query "nurse " ends
  with a space: its only token, "nurse", does not occur in "backend engineer remote", and
  the Greenhouse adapter includes the posting, because \<^verbatim>\<open>"nurse ".split(/\s+/)\<close> has a
  second, empty piece, which every text includes. And a Lever posting that is relevant for
  "engineer" but was created at a time beyond the range of \<^verbatim>\<open>Date\<close> is not included, nor
  is the valid posting after it: \<^verbatim>\<open>toISOString\<close> throws in the loop that builds the
  results, and the \<^verbatim>\<open>catch\<close> of the site ends the loop.
\<close>

theorem relevance_filter_counterexample:
  "\<not> spec_relevant ''nurse '' (''Backend Engineer'' @ '' '' @ ''Remote'')
   \<and> greenhouse_job ''a'' (example_greenhouse_job ''Backend Engineer'' ''http://g.co/1'')
       \<in> set (greenhouse_board example_world ''nurse '' ''a'')
   \<and> spec_relevant ''engineer'' (''Backend Engineer'' @ '' '' @ ''Remote'' @ '' '' @ ''Platform'')
   \<and> lever_site late_date_world ''engineer'' ''a'' = []"
proof -
  have a: "\<not> spec_relevant ''nurse '' (''Backend Engineer'' @ '' '' @ ''Remote'')"
    by (simp add: spec_eval)
  have b: "greenhouse_job ''a'' (example_greenhouse_job ''Backend Engineer'' ''http://g.co/1'')
       \<in> set (greenhouse_board example_world ''nurse '' ''a'')"
    by (simp add: greenhouse_board_def example_fetch example_greenhouse_job_def text_eval)
  have c: "spec_relevant ''engineer'' (''Backend Engineer'' @ '' '' @ ''Remote'' @ '' '' @ ''Platform'')"
    by (simp add: spec_eval)
  have "lever_job ''a'' (example_posting (Some 10000000000000000)) = None"
    by (simp add: lever_job_None example_posting_def)
  moreover have "matches_query ''engineer'' (lever_text (example_posting (Some 10000000000000000)))"
    by (simp add: example_posting_def text_eval)
  ultimately have d: "lever_site late_date_world ''engineer'' ''a'' = []"
    by (simp add: lever_site_def example_fetch)
  from a b c d show ?thesis by blast
qed

subsection \<open>Which adapters a search runs (C5)\<close>

text \<open>
  Claim C5. On a cache miss \<^verbatim>\<open>search\<close> runs exactly these adapters, in this order: the
  ts-jobspy adapter unless \<^verbatim>\<open>options.site\<close> names something other than \<^verbatim>\<open>linkedin\<close> or
  \<^verbatim>\<open>indeed\<close> (so it runs when the site is absent or empty, or one of the two); the
  Greenhouse adapter iff the list of boards is present and not empty; the Lever adapter
  iff the list of sites is present and not empty. The calls of the search are those of
  the adapters it runs: one scrape, one fetch for each board, one fetch for each site.
\<close>

theorem adapter_task_set:
  "(JobSpy \<in> set (adapters opts) \<longleftrightarrow>
      opt_site opts = None \<or> opt_site opts = Some [] \<or> opt_site opts = Some ''linkedin''
      \<or> opt_site opts = Some ''indeed'')
   \<and> (Greenhouse \<in> set (adapters opts) \<longleftrightarrow>
        (\<exists>boards. opt_greenhouseBoards opts = Some boards \<and> boards \<noteq> []))
   \<and> (Lever \<in> set (adapters opts) \<longleftrightarrow>
        (\<exists>sites. opt_leverSites opts = Some sites \<and> sites \<noteq> []))
   \<and> adapters opts = filter (\<lambda>a. a \<in> set (adapters opts)) [JobSpy, Greenhouse, Lever]
   \<and> (fst (cache_get c query (JSON_stringify opts) CACHE_TTL_MS t_get) = None \<longrightarrow>
        fst (search w c query opts t_get t_set)
          = dedupe (concat (map (\<lambda>a. fst (run_adapter w query opts a)) (adapters opts)))
        \<and> snd (snd (search w c query opts t_get t_set))
          = concat (map (\<lambda>a. snd (run_adapter w query opts a)) (adapters opts)))
   \<and> snd (run_adapter w query opts JobSpy) = [Scrape (scrape_request query opts)]
   \<and> (opt_greenhouseBoards opts = Some boards \<longrightarrow>
        snd (run_adapter w query opts Greenhouse) = map (\<lambda>board. Fetch (greenhouse_url board)) boards)
   \<and> (opt_leverSites opts = Some sites \<longrightarrow>
        snd (run_adapter w query opts Lever) = map (\<lambda>site. Fetch (lever_url site)) sites)"
  using adapters_member [of opts] adapters_order [of opts] run_adapter_calls [of w query opts]
    search_miss [of c query opts t_get w t_set]
  by simp

theorem adapter_task_set_witness:
  "adapters example_opts = [JobSpy, Greenhouse, Lever]
   \<and> adapters (example_opts \<lparr> opt_site := Some ''greenhouse'', opt_leverSites := Some [] \<rparr>) = [Greenhouse]
   \<and> adapters (example_opts \<lparr> opt_site := Some ''indeed'', opt_greenhouseBoards := None \<rparr>) = [JobSpy, Lever]
   \<and> snd (snd (search example_world [] ''engineer''
          (example_opts \<lparr> opt_site := Some ''greenhouse'', opt_leverSites := Some [] \<rparr>) 0 5))
       = [Fetch (greenhouse_url ''a'')]"
proof -
  let ?o1 = "example_opts \<lparr> opt_site := Some ''greenhouse'', opt_leverSites := Some [] \<rparr>"
  let ?o2 = "example_opts \<lparr> opt_site := Some ''indeed'', opt_greenhouseBoards := None \<rparr>"
  have a0: "adapters example_opts = [JobSpy, Greenhouse, Lever]"
    using adapter_task_set [of example_opts, THEN conjunct2, THEN conjunct2, THEN conjunct2, THEN conjunct1]
      adapter_task_set [of example_opts, THEN conjunct1]
      adapter_task_set [of example_opts, THEN conjunct2, THEN conjunct1]
      adapter_task_set [of example_opts, THEN conjunct2, THEN conjunct2, THEN conjunct1]
    by (simp add: example_opts_def)
  have a1: "adapters ?o1 = [Greenhouse]"
    using adapter_task_set [of ?o1, THEN conjunct2, THEN conjunct2, THEN conjunct2, THEN conjunct1]
      adapter_task_set [of ?o1, THEN conjunct1]
      adapter_task_set [of ?o1, THEN conjunct2, THEN conjunct1]
      adapter_task_set [of ?o1, THEN conjunct2, THEN conjunct2, THEN conjunct1]
    by (simp add: example_opts_def)
  have a2: "adapters ?o2 = [JobSpy, Lever]"
    using adapter_task_set [of ?o2, THEN conjunct2, THEN conjunct2, THEN conjunct2, THEN conjunct1]
      adapter_task_set [of ?o2, THEN conjunct1]
      adapter_task_set [of ?o2, THEN conjunct2, THEN conjunct1]
      adapter_task_set [of ?o2, THEN conjunct2, THEN conjunct2, THEN conjunct1]
    by (simp add: example_opts_def)
  have "snd (snd (search example_world [] ''engineer'' ?o1 0 5)) = [Fetch (greenhouse_url ''a'')]"
    using adapter_task_set [of ?o1 "[]" "''engineer''" 0 example_world 5 "[''a'']" "[]"] a1
    by (simp add: empty_cache_miss example_opts_def)
  with a0 a1 a2 show ?thesis by simp
qed

subsection \<open>Salary formatting (C6)\<close>

text \<open>
  Claim C6, as amended. \<^verbatim>\<open>formatSalary(120000, 150000, "yearly", "USD")\<close> is
  \<^verbatim>\<open>"USD 120,000-150,000/yearly"\<close>, \<^verbatim>\<open>formatSalary(null, 150000, "yearly", "USD")\<close> is
  \<^verbatim>\<open>"up to USD 150,000/yearly"\<close> and \<^verbatim>\<open>formatSalary(null, null, null, null)\<close> is null.
  In general, for a non-empty currency and interval, the output is
  \<^verbatim>\<open>"{currency} {min}-{max}/{interval}"\<close> when both bounds are non-null and non-zero,
  \<^verbatim>\<open>"{currency} {min}+/{interval}"\<close> when only the minimum is,
  \<^verbatim>\<open>"up to {currency} {max}/{interval}"\<close> when only the maximum is, and null when each bound
  is null or zero. A null interval drops the \<^verbatim>\<open>/{interval}\<close> suffix and a null currency
  prints as USD.
\<close>

theorem formatSalary_shapes:
  fixes mn mx :: int and lo hi :: "int option"
  assumes "cur \<noteq> []" and "iv \<noteq> []" and "mn \<noteq> 0" and "mx \<noteq> 0"
    and "lo = None \<or> lo = Some 0" and "hi = None \<or> hi = Some 0"
  shows "formatSalary (Some 120000) (Some 150000) (Some ''yearly'') (Some ''USD'')
           = Some ''USD 120,000-150,000/yearly''
       \<and> formatSalary None (Some 150000) (Some ''yearly'') (Some ''USD'')
           = Some ''up to USD 150,000/yearly''
       \<and> formatSalary None None None None = None
       \<and> formatSalary (Some mn) (Some mx) (Some iv) (Some cur)
           = Some (cur @ '' '' @ toLocaleString mn @ ''-'' @ toLocaleString mx @ ''/'' @ iv)
       \<and> formatSalary (Some mn) hi (Some iv) (Some cur)
           = Some (cur @ '' '' @ toLocaleString mn @ ''+/'' @ iv)
       \<and> formatSalary lo (Some mx) (Some iv) (Some cur)
           = Some (''up to '' @ cur @ '' '' @ toLocaleString mx @ ''/'' @ iv)
       \<and> formatSalary lo hi (Some iv) (Some cur) = None
       \<and> formatSalary (Some mn) (Some mx) None (Some cur)
           = Some (cur @ '' '' @ toLocaleString mn @ ''-'' @ toLocaleString mx)
       \<and> formatSalary (Some mn) (Some mx) (Some iv) None
           = Some (''USD '' @ toLocaleString mn @ ''-'' @ toLocaleString mx @ ''/'' @ iv)"
proof -
  have examples:
    "formatSalary (Some 120000) (Some 150000) (Some ''yearly'') (Some ''USD'')
       = Some ''USD 120,000-150,000/yearly''"
    "formatSalary None (Some 150000) (Some ''yearly'') (Some ''USD'')
       = Some ''up to USD 150,000/yearly''"
    "formatSalary None None None None = None"
    by (simp_all add: salary_eval)
  have general:
    "formatSalary (Some mn) (Some mx) (Some iv) (Some cur)
       = Some (cur @ '' '' @ toLocaleString mn @ ''-'' @ toLocaleString mx @ ''/'' @ iv)"
    "formatSalary (Some mn) hi (Some iv) (Some cur)
       = Some (cur @ '' '' @ toLocaleString mn @ ''+/'' @ iv)"
    "formatSalary lo (Some mx) (Some iv) (Some cur)
       = Some (''up to '' @ cur @ '' '' @ toLocaleString mx @ ''/'' @ iv)"
    "formatSalary lo hi (Some iv) (Some cur) = None"
    "formatSalary (Some mn) (Some mx) None (Some cur)
       = Some (cur @ '' '' @ toLocaleString mn @ ''-'' @ toLocaleString mx)"
    "formatSalary (Some mn) (Some mx) (Some iv) None
       = Some (''USD '' @ toLocaleString mn @ ''-'' @ toLocaleString mx @ ''/'' @ iv)"
    using assms by (auto simp add: formatSalary_def truthy_num_def truthy_str_def or_str_def)
  from examples general show ?thesis by blast
qed

theorem formatSalary_shapes_witness:
  "formatSalary (Some 85000) (Some 110000) (Some ''yearly'') (Some ''EUR'')
     = Some ''EUR 85,000-110,000/yearly''
   \<and> formatSalary (Some 85000) (Some 0) (Some ''yearly'') (Some ''EUR'') = Some ''EUR 85,000+/yearly''
   \<and> formatSalary None (Some 110000) (Some ''yearly'') (Some ''EUR'')
     = Some ''up to EUR 110,000/yearly''
   \<and> formatSalary None (Some 0) (Some ''yearly'') (Some ''EUR'') = None
   \<and> formatSalary (Some 85000) (Some 110000) None (Some ''EUR'') = Some ''EUR 85,000-110,000''
   \<and> formatSalary (Some 85000) (Some 110000) (Some ''yearly'') None
     = Some ''USD 85,000-110,000/yearly''"
  using formatSalary_shapes [of "''EUR''" "''yearly''" 85000 110000 None "Some 0"]
  by (simp add: toLocaleString_def dec_digits.simps digit_char_def)

text \<open>
  The claim as the specification words it, with "present" read as "not null", fails: both
  bounds of \<^verbatim>\<open>formatSalary(0, 150000, "yearly", "USD")\<close> are present, and the result is
  \<^verbatim>\<open>"up to USD 150,000/yearly"\<close>, not \<^verbatim>\<open>"USD 0-150,000/yearly"\<close>.
\<close>

theorem formatSalary_present_counterexample:
  "formatSalary (Some 0) (Some 150000) (Some ''yearly'') (Some ''USD'')
     = Some ''up to USD 150,000/yearly''
   \<and> formatSalary (Some 0) (Some 150000) (Some ''yearly'') (Some ''USD'')
     \<noteq> Some (''USD'' @ '' '' @ toLocaleString 0 @ ''-'' @ toLocaleString 150000 @ ''/'' @ ''yearly'')
   \<and> \<not> (\<forall>mn mx iv cur. formatSalary (Some mn) (Some mx) (Some iv) (Some cur)
           = Some (cur @ '' '' @ toLocaleString mn @ ''-'' @ toLocaleString mx @ ''/'' @ iv))"
proof -
  have a: "formatSalary (Some 0) (Some 150000) (Some ''yearly'') (Some ''USD'')
     = Some ''up to USD 150,000/yearly''"
    by (simp add: salary_eval)
  have b: "formatSalary (Some 0) (Some 150000) (Some ''yearly'') (Some ''USD'')
     \<noteq> Some (''USD'' @ '' '' @ toLocaleString 0 @ ''-'' @ toLocaleString 150000 @ ''/'' @ ''yearly'')"
    by (simp add: salary_eval)
  from b have "\<not> (\<forall>mn mx iv cur. formatSalary (Some mn) (Some mx) (Some iv) (Some cur)
           = Some (cur @ '' '' @ toLocaleString mn @ ''-'' @ toLocaleString mx @ ''/'' @ iv))"
    by blast
  with a b show ?thesis by blast
qed

subsection \<open>The fields of the returned jobs (C7)\<close>

text \<open>
  Claim C7, as amended. Every job that \<^verbatim>\<open>search\<close> returns on a cache miss comes from a
  record of one of the three sources, and its \<^verbatim>\<open>source\<close> is never empty: it is
  \<^verbatim>\<open>greenhouse\<close>, or \<^verbatim>\<open>lever\<close>, or, for a job of the scraper, the site of the scraped
  record (\<^verbatim>\<open>linkedin\<close>, \<^verbatim>\<open>indeed\<close>), and \<^verbatim>\<open>jobspy\<close> only when that site is empty. Its
  \<^verbatim>\<open>jobUrl\<close> is the URL of that record as it came: \<^verbatim>\<open>jobUrl\<close> of the scraper,
  \<^verbatim>\<open>absolute_url\<close> of Greenhouse, \<^verbatim>\<open>hostedUrl\<close> of Lever or \<^verbatim>\<open>applyUrl\<close> when that is
  missing or empty.
\<close>

theorem result_fields:
  assumes miss: "fst (cache_get c query (JSON_stringify opts) CACHE_TTL_MS t_get) = None"
  shows "\<forall>j \<in> set (fst (search w c query opts t_get t_set)).
      source j \<noteq> [] \<and>
      ((\<exists>rs r. scrapeJobs w (scrape_request query opts) = Fulfilled rs \<and> r \<in> set rs
          \<and> jobUrl j = r_jobUrl r \<and> source j = (if r_site r = [] then ''jobspy'' else r_site r))
       \<or> (\<exists>board js g. fetch w (greenhouse_url board) = Json (JobsObject (Some js)) \<and> g \<in> set js
          \<and> jobUrl j = j_absolute_url g \<and> source j = ''greenhouse'')
       \<or> (\<exists>site ps p. fetch w (lever_url site) = Json (PostingsArray ps) \<and> p \<in> set ps
          \<and> jobUrl j = (case p_hostedUrl p of None \<Rightarrow> p_applyUrl p
                         | Some u \<Rightarrow> if u = [] then p_applyUrl p else u)
          \<and> source j = ''lever''))"
proof
  fix j
  assume "j \<in> set (fst (search w c query opts t_get t_set))"
  then have "j \<in> set (concat (map (\<lambda>a. fst (run_adapter w query opts a)) (adapters opts)))"
    using dedupe_subset [of "concat (map (\<lambda>a. fst (run_adapter w query opts a)) (adapters opts))"]
    by (auto simp add: search_miss [OF miss])
  then obtain a where j: "j \<in> set (fst (run_adapter w query opts a))"
    by auto
  show "source j \<noteq> [] \<and>
      ((\<exists>rs r. scrapeJobs w (scrape_request query opts) = Fulfilled rs \<and> r \<in> set rs
          \<and> jobUrl j = r_jobUrl r \<and> source j = (if r_site r = [] then ''jobspy'' else r_site r))
       \<or> (\<exists>board js g. fetch w (greenhouse_url board) = Json (JobsObject (Some js)) \<and> g \<in> set js
          \<and> jobUrl j = j_absolute_url g \<and> source j = ''greenhouse'')
       \<or> (\<exists>site ps p. fetch w (lever_url site) = Json (PostingsArray ps) \<and> p \<in> set ps
          \<and> jobUrl j = (case p_hostedUrl p of None \<Rightarrow> p_applyUrl p
                         | Some u \<Rightarrow> if u = [] then p_applyUrl p else u)
          \<and> source j = ''lever''))"
  proof (cases a)
    case JobSpy
    with j obtain rs r where "scrapeJobs w (scrape_request query opts) = Fulfilled rs" "r \<in> set rs"
      "j = jobspy_job r"
      using jobspy_member by blast
    then have "source j \<noteq> []"
      and "\<exists>rs r. scrapeJobs w (scrape_request query opts) = Fulfilled rs \<and> r \<in> set rs
          \<and> jobUrl j = r_jobUrl r \<and> source j = (if r_site r = [] then ''jobspy'' else r_site r)"
      by (auto simp add: jobspy_job_fields)
    then show ?thesis by blast
  next
    case Greenhouse
    with j obtain board js g where "fetch w (greenhouse_url board) = Json (JobsObject (Some js))"
      "g \<in> set js" "j = greenhouse_job board g"
      using greenhouse_member by blast
    then have "source j \<noteq> []"
      and "\<exists>board js g. fetch w (greenhouse_url board) = Json (JobsObject (Some js)) \<and> g \<in> set js
          \<and> jobUrl j = j_absolute_url g \<and> source j = ''greenhouse''"
      by (auto simp add: greenhouse_job_fields)
    then show ?thesis by blast
  next
    case Lever
    with j obtain site ps p where "fetch w (lever_url site) = Json (PostingsArray ps)"
      "p \<in> set ps" "lever_job site p = Some j"
      using lever_member by blast
    then have "source j \<noteq> []"
      and "\<exists>site ps p. fetch w (lever_url site) = Json (PostingsArray ps) \<and> p \<in> set ps
          \<and> jobUrl j = (case p_hostedUrl p of None \<Rightarrow> p_applyUrl p
                         | Some u \<Rightarrow> if u = [] then p_applyUrl p else u)
          \<and> source j = ''lever''"
      using lever_job_fields [of site p j] by (auto simp add: or_str_def)
    then show ?thesis by blast
  qed
qed

theorem result_fields_witness:
  "fst (search empty_url_world [] ''engineer'' example_opts 0 5) = [example_job ''linkedin'' []]
   \<and> scrapeJobs empty_url_world (scrape_request ''engineer'' example_opts) = Fulfilled [example_record []]
   \<and> source (example_job ''linkedin'' []) = r_site (example_record [])
   \<and> jobUrl (example_job ''linkedin'' []) = r_jobUrl (example_record [])
   \<and> source (example_job ''linkedin'' []) \<noteq> []"
  using result_fields [of "[]" "''engineer''" example_opts 0 empty_url_world 5]
  by (simp add: empty_cache_miss empty_url_results) (simp add: example_job_def example_record_def empty_url_world_def)

text \<open>
  The claim as the specification words it fails: a scraped record found on LinkedIn with
  an empty URL is returned with the source \<^verbatim>\<open>linkedin\<close>, which is none of the three adapter
  tags, and with an empty \<^verbatim>\<open>jobUrl\<close>.
\<close>

theorem result_fields_counterexample:
  "fst (search empty_url_world [] ''engineer'' example_opts 0 5) = [example_job ''linkedin'' []]
   \<and> jobUrl (example_job ''linkedin'' []) = []
   \<and> source (example_job ''linkedin'' []) \<notin> {''jobspy'', ''greenhouse'', ''lever''}
   \<and> \<not> (\<forall>j \<in> set (fst (search empty_url_world [] ''engineer'' example_opts 0 5)).
           jobUrl j \<noteq> [] \<and> source j \<in> {''jobspy'', ''greenhouse'', ''lever''})"
  by (simp add: empty_url_results) (simp add: example_job_def)

subsection \<open>The result cap (C8)\<close>

text \<open>
  Claim C8. The cap \<^verbatim>\<open>options.results\<close> is not applied to the merged list: in the example
  the cap is 1 and the search returns three jobs. On a cache miss the returned list is the
  deduplicated concatenation of the adapters' lists, and its length is the number of
  distinct keys among them.
\<close>

theorem results_cap_not_enforced:
  "(\<exists>w c query opts t_get t_set n.
      opt_results opts = Some n \<and> int (length (fst (search w c query opts t_get t_set))) > n)
   \<and> (fst (cache_get c query (JSON_stringify opts) CACHE_TTL_MS t_get) = None \<longrightarrow>
        fst (search w c query opts t_get t_set)
          = dedupe (concat (map (\<lambda>a. fst (run_adapter w query opts a)) (adapters opts)))
        \<and> length (fst (search w c query opts t_get t_set))
          = card (dedup_key ` set (concat (map (\<lambda>a. fst (run_adapter w query opts a)) (adapters opts)))))"
proof -
  have "opt_results example_opts = Some 1
      \<and> int (length (fst (search example_world [] ''engineer'' example_opts 0 5))) > 1"
    by (simp add: example_results) (simp add: example_opts_def)
  then have "\<exists>w c query opts t_get t_set n.
      opt_results opts = Some n \<and> int (length (fst (search w c query opts t_get t_set))) > n"
    by blast
  then show ?thesis
    using search_miss [of c query opts t_get w t_set] by (simp add: dedupe_length)
qed

theorem results_cap_not_enforced_witness:
  "opt_results example_opts = Some 1
   \<and> fst (search example_world [] ''engineer'' example_opts 0 5)
       = dedupe (concat (map (\<lambda>a. fst (run_adapter example_world ''engineer'' example_opts a))
           (adapters example_opts)))
   \<and> length (fst (search example_world [] ''engineer'' example_opts 0 5)) = 3"
proof -
  have "opt_results example_opts = Some 1" by (simp add: example_opts_def)
  moreover have "length (fst (search example_world [] ''engineer'' example_opts 0 5)) = 3"
    by (simp add: example_results)
  moreover have "fst (search example_world [] ''engineer'' example_opts 0 5)
       = dedupe (concat (map (\<lambda>a. fst (run_adapter example_world ''engineer'' example_opts a))
           (adapters example_opts)))"
    using results_cap_not_enforced [of "[]" "''engineer''" example_opts 0 example_world 5]
      empty_cache_miss [of "''engineer''" "JSON_stringify example_opts" CACHE_TTL_MS 0]
    by blast
  ultimately show ?thesis by blast
qed

subsection \<open>The cache (C9)\<close>

text \<open>
  Claim C9. A value stored by \<^verbatim>\<open>set(q, o, v)\<close> is what \<^verbatim>\<open>get(q, o, ttl)\<close> returns as long
  as no more than \<open>ttl\<close> has passed since it was stored; later \<^verbatim>\<open>get\<close> returns absent.
  \<^verbatim>\<open>get\<close> leaves the store as it is, the expired entry included; \<^verbatim>\<open>prune\<close> removes the
  entry once it is older than the 30 minutes, and \<^verbatim>\<open>clear\<close> removes every entry.
\<close>

theorem cache_round_trip:
  "(t1 - t0 \<le> ttl \<longrightarrow> fst (cache_get (cache_set c ns pk v t0) ns pk ttl t1) = Some v)
   \<and> (t1 - t0 > ttl \<longrightarrow> fst (cache_get (cache_set c ns pk v t0) ns pk ttl t1) = None)
   \<and> snd (cache_get (cache_set c ns pk v t0) ns pk ttl t1) = cache_set c ns pk v t0
   \<and> (t1 - t0 > CACHE_TTL_MS \<longrightarrow>
        map_of (snd (cache_prune (cache_set c ns pk v t0) t1)) (ns, pk) = None)
   \<and> (t1 - t0 \<le> CACHE_TTL_MS \<longrightarrow>
        map_of (snd (cache_prune (cache_set c ns pk v t0) t1)) (ns, pk)
          = Some \<lparr> entry_value = v, storedAt = t0 \<rparr>)
   \<and> snd (cache_clear (cache_set c ns pk v t0)) = []"
proof -
  have "map_of (filter (\<lambda>kv. \<not> t1 - storedAt (snd kv) > CACHE_TTL_MS)
          (filter (\<lambda>kv. fst kv \<noteq> (ns, pk)) c)) (ns, pk) = None"
    by (auto simp add: map_of_eq_None_iff)
  then have prune: "map_of (snd (cache_prune (cache_set c ns pk v t0) t1)) (ns, pk)
      = (if t1 - t0 > CACHE_TTL_MS then None else Some \<lparr> entry_value = v, storedAt = t0 \<rparr>)"
    by (simp add: cache_prune_def cache_set_def)
  have clear: "snd (cache_clear (cache_set c ns pk v t0)) = []"
    by (simp add: cache_clear_def)
  show ?thesis
    by (simp add: cache_get_set cache_get_unchanged prune clear)
qed

theorem cache_round_trip_witness:
  "fst (cache_get (cache_set [] ''engineer'' ''{}'' [1::nat, 2] 1000) ''engineer'' ''{}'' 1800000 1801000)
     = Some [1, 2]
   \<and> fst (cache_get (cache_set [] ''engineer'' ''{}'' [1::nat, 2] 1000) ''engineer'' ''{}'' 1800000 1801001)
     = None
   \<and> snd (cache_get (cache_set [] ''engineer'' ''{}'' [1::nat, 2] 1000) ''engineer'' ''{}'' 1800000 1801001)
     = [((''engineer'', ''{}''), \<lparr> entry_value = [1, 2], storedAt = 1000 \<rparr>)]
   \<and> snd (cache_prune (cache_set [] ''engineer'' ''{}'' [1::nat, 2] 1000) 1801001) = []"
  using cache_round_trip [of 1801000 1000 1800000 "[]" "''engineer''" "''{}''" "[1::nat, 2]"]
    cache_round_trip [of 1801001 1000 1800000 "[]" "''engineer''" "''{}''" "[1::nat, 2]"]
  by (simp add: cache_set_def cache_prune_def CACHE_TTL_MS_def)

subsection \<open>A zero bound of a salary (C10)\<close>

text \<open>
  Claim C10. A zero bound counts as absent: \<^verbatim>\<open>formatSalary(0, 0, interval, currency)\<close> is
  null for every interval and currency, and \<^verbatim>\<open>formatSalary(0, max, interval, currency)\<close>
  with a positive \<^verbatim>\<open>max\<close> has the "up to" shape, without the minimum.
\<close>

theorem formatSalary_zero_bound:
  "formatSalary (Some 0) (Some 0) interval currency = None
   \<and> (0 < mx \<longrightarrow>
        formatSalary (Some 0) (Some mx) interval currency
          = Some (''up to '' @ (case currency of None \<Rightarrow> ''USD'' | Some cur \<Rightarrow> if cur = [] then ''USD'' else cur)
                  @ '' '' @ toLocaleString mx
                  @ (case interval of None \<Rightarrow> [] | Some iv \<Rightarrow> if iv = [] then [] else ''/'' @ iv)))"
  by (auto simp add: formatSalary_def truthy_num_def truthy_str_def or_str_def split: option.splits)

theorem formatSalary_zero_bound_witness:
  "formatSalary (Some 0) (Some 0) (Some ''monthly'') (Some ''GBP'') = None
   \<and> formatSalary (Some 0) (Some 4200) (Some ''monthly'') (Some ''GBP'') = Some ''up to GBP 4,200/monthly''
   \<and> formatSalary (Some 0) (Some 4200) None None = Some ''up to USD 4,200''"
  using formatSalary_zero_bound [of "Some ''monthly''" "Some ''GBP''" 4200]
    formatSalary_zero_bound [of None None 4200]
  by (simp add: toLocaleString_def dec_digits.simps digit_char_def)

end
